theory Spec2Isabelle
  imports Complex_Main "HOL-Library.Word"
begin

unbundle bit_operations_syntax

section \<open>Audio utilities (src/utils/audioUtils.ts)\<close>

text \<open>
  A \<open>Float32Array\<close> element is a finite number, an infinity or NaN. Finite
  values are embedded as reals: for a 24-bit significand the products with \<open>0x8000\<close>
  and \<open>0x7FFF\<close> are exact in double precision, and a 16-bit integer divided by
  \<open>32768\<close> is exact in single precision, so no rounding takes place in the code
  modelled here.
\<close>

datatype f32 = Num real | PosInf | NegInf | NaN

datatype js_error =
  RangeError | NotSupportedError | InvalidCharacterError | InvalidStateError | TypeError |
  PromiseRejected

type_synonym uint8 = "8 word"
type_synonym int16 = "16 word"

text \<open>\<open>Math.max(-1, Math.min(1, x))\<close>; the result \<open>None\<close> stands for NaN.\<close>

fun clamp_sample :: "f32 \<Rightarrow> real option" where
  "clamp_sample (Num r) = Some (max (- 1) (min 1 r))"
| "clamp_sample PosInf = Some 1"
| "clamp_sample NegInf = Some (- 1)"
| "clamp_sample NaN = None"

text \<open>
  Storing a number into an \<open>Int16Array\<close> truncates it towards zero and reduces it
  modulo \<open>2^16\<close>; NaN is stored as 0.
\<close>

definition js_trunc :: "real \<Rightarrow> int" where
  "js_trunc v = (if v < 0 then \<lceil>v\<rceil> else \<lfloor>v\<rfloor>)"

definition ToInt16 :: "real \<Rightarrow> int16" where
  "ToInt16 v = word_of_int (js_trunc v)"

text \<open>The body of the loop of \<open>createBlob\<close> (lines 7 and 8).\<close>

definition scale_sample :: "real \<Rightarrow> real" where
  "scale_sample s = (if s < 0 then s * 32768 else s * 32767)"

definition pcm_sample :: "f32 \<Rightarrow> int16" where
  "pcm_sample x = (case clamp_sample x of None \<Rightarrow> 0 | Some s \<Rightarrow> ToInt16 (scale_sample s))"

text \<open>
  \<open>new Uint8Array(int16.buffer)\<close> and \<open>new Int16Array(data.buffer)\<close>: the two views
  of one buffer, low byte first. The second raises \<open>RangeError\<close> when the byte length
  is odd.
\<close>

definition uint8_view :: "int16 list \<Rightarrow> uint8 list" where
  "uint8_view ws = concat (map (\<lambda>w. [ucast w, ucast (drop_bit 8 w)]) ws)"

fun int16_view :: "uint8 list \<Rightarrow> int16 list" where
  "int16_view (lo # hi # bs) = (push_bit 8 (ucast hi) OR ucast lo) # int16_view bs"
| "int16_view bs = []"

definition new_Int16Array :: "uint8 list \<Rightarrow> js_error + int16 list" where
  "new_Int16Array bs = (if odd (length bs) then Inl RangeError else Inr (int16_view bs))"

text \<open>
  \<open>encode\<close> and \<open>decode\<close>: the bytes as a binary string (one character per byte),
  passed through the platform's \<open>btoa\<close> and \<open>atob\<close>, which are parameters here.
  \<open>atob\<close> raises on text that is not base64.
\<close>

definition encode :: "(string \<Rightarrow> string) \<Rightarrow> uint8 list \<Rightarrow> string" where
  "encode btoa bytes = btoa (map (\<lambda>b. char_of (unat b)) bytes)"

definition decode :: "(string \<Rightarrow> string option) \<Rightarrow> string \<Rightarrow> js_error + uint8 list" where
  "decode atob base64 =
     (case atob base64 of
        None \<Rightarrow> Inl InvalidCharacterError
      | Some binaryString \<Rightarrow> Inr (map (\<lambda>c. of_nat (of_char c)) binaryString))"

record blob =
  data :: string
  mimeType :: string

definition createBlob :: "(string \<Rightarrow> string) \<Rightarrow> f32 list \<Rightarrow> blob" where
  "createBlob btoa samples =
     \<lparr> data = encode btoa (uint8_view (map pcm_sample samples)),
       mimeType = ''audio/pcm;rate=16000'' \<rparr>"

text \<open>
  An \<open>AudioBuffer\<close>. \<open>createBuffer\<close> raises \<open>NotSupportedError\<close> for no channel,
  no frame or no sample rate; the length is an unsigned integer, so a fractional frame
  count is truncated.
\<close>

record AudioBuffer =
  numberOfChannels :: nat
  frames :: nat
  sampleRate :: nat
  channelData :: "real list list"

definition duration :: "AudioBuffer \<Rightarrow> real" where
  "duration b = real (frames b) / real (sampleRate b)"

definition createBuffer :: "nat \<Rightarrow> nat \<Rightarrow> nat \<Rightarrow> js_error + AudioBuffer" where
  "createBuffer numChannels frameCount rate =
     (if numChannels = 0 \<or> frameCount = 0 \<or> rate = 0 then Inl NotSupportedError
      else Inr \<lparr> numberOfChannels = numChannels, frames = frameCount, sampleRate = rate,
                 channelData = replicate numChannels (replicate frameCount 0) \<rparr>)"

definition decodeAudioData :: "uint8 list \<Rightarrow> nat \<Rightarrow> nat \<Rightarrow> js_error + AudioBuffer" where
  "decodeAudioData bytes rate numChannels =
     (case new_Int16Array bytes of
        Inl e \<Rightarrow> Inl e
      | Inr dataInt16 \<Rightarrow>
          (case createBuffer numChannels (length dataInt16 div numChannels) rate of
             Inl e \<Rightarrow> Inl e
           | Inr buffer \<Rightarrow>
               Inr (buffer \<lparr> channelData :=
                      map (\<lambda>channel.
                             map (\<lambda>i. real_of_int (sint (dataInt16 ! (i * numChannels + channel))) / 32768)
                                 [0 ..< frames buffer])
                          [0 ..< numChannels] \<rparr>)))"

text \<open>
  Encoding samples with \<open>createBlob\<close> and decoding the result as the playback path
  does: \<open>decodeAudioData(decode(blob.data), ctx, 24000, 1)\<close>.
\<close>

definition roundtrip ::
  "(string \<Rightarrow> string) \<Rightarrow> (string \<Rightarrow> string option) \<Rightarrow> f32 list \<Rightarrow> js_error + AudioBuffer" where
  "roundtrip btoa atob samples =
     (case decode atob (data (createBlob btoa samples)) of
        Inl e \<Rightarrow> Inl e
      | Inr bytes \<Rightarrow> decodeAudioData bytes 24000 1)"

section \<open>Data model (src/types.ts)\<close>

text \<open>
  The fields of \<open>CustomerDetails\<close> are declared as strings, but they are copied
  from the untyped arguments of a tool call (\<open>fc.args as any\<close>), so at run time a
  field is \<open>undefined\<close> when the argument is missing: \<open>None\<close> here. A \<open>Date\<close>
  is its time value. The fields of \<open>ChatMessage\<close> carry the prefix \<open>chat_\<close>
  (\<open>text\<close> is a keyword, \<open>timestamp\<close> is taken by \<open>CustomerDetails\<close>).
\<close>

type_synonym date = nat

record CustomerDetails =
  fullName :: "string option"
  phoneNumber :: "string option"
  monthlyIncome :: "string option"
  age :: "string option"
  insuranceType :: "string option"
  timestamp :: string

datatype role = User | Model | System

record ChatMessage =
  chat_role :: role
  chat_text :: string
  chat_timestamp :: date

datatype ConnectionState = DISCONNECTED | CONNECTING | CONNECTED | ERROR

section \<open>Export (exportToCSV)\<close>

text \<open>What a template literal or a string concatenation makes of a value.\<close>

fun js_string :: "string option \<Rightarrow> string" where
  "js_string None = ''undefined''"
| "js_string (Some s) = s"

fun role_string :: "role \<Rightarrow> string" where
  "role_string User = ''user''"
| "role_string Model = ''model''"
| "role_string System = ''system''"

definition dq :: char where
  "dq = CHR 0x22"

text \<open>The template \<open>`"${v}"`\<close>, \<open>replace(/"/g, '""')\<close> and \<open>Array.prototype.join\<close>.\<close>

definition quoted :: "string \<Rightarrow> string" where
  "quoted v = [dq] @ v @ [dq]"

definition escape_quotes :: "string \<Rightarrow> string" where
  "escape_quotes v = concat (map (\<lambda>c. if c = dq then [dq, dq] else [c]) v)"

fun join :: "string \<Rightarrow> string list \<Rightarrow> string" where
  "join sep [] = []"
| "join sep [x] = x"
| "join sep (x # y # ys) = x @ sep @ join sep (y # ys)"

definition customer_row :: "CustomerDetails \<Rightarrow> string list" where
  "customer_row c =
     [quoted (js_string (fullName c)),
      quoted (js_string (phoneNumber c)),
      quoted (js_string (monthlyIncome c)),
      quoted (js_string (age c)),
      quoted (js_string (insuranceType c)),
      quoted (timestamp c)]"

definition transcript_row :: "(date \<Rightarrow> string) \<Rightarrow> ChatMessage \<Rightarrow> string list" where
  "transcript_row toISOString t =
     [quoted (toISOString (chat_timestamp t)),
      quoted (role_string (chat_role t)),
      quoted (escape_quotes (chat_text t))]"

definition csv :: "string list \<Rightarrow> string list list \<Rightarrow> string" where
  "csv headers rows = join [CHR 0x0A] (join '','' headers # map (join '','') rows)"

record download =
  filename :: string
  content :: string

text \<open>
  \<open>exportToCSV\<close> hands each artifact to \<open>downloadFile\<close>; the result here is the list
  of downloads made. \<open>toISOString\<close> formats a date and \<open>isoNow\<close> is
  \<open>new Date().toISOString()\<close> at the time of the export.
\<close>

definition exportToCSV ::
  "(date \<Rightarrow> string) \<Rightarrow> string \<Rightarrow> CustomerDetails list \<Rightarrow> ChatMessage list \<Rightarrow> download list" where
  "exportToCSV toISOString isoNow customers transcript =
     (if customers \<noteq> [] then
        [\<lparr> filename = ''magma_care_customers_'' @ isoNow @ ''.csv'',
           content = csv [''Full Name'', ''Phone'', ''Income'', ''Age'', ''Insurance Type'', ''Timestamp'']
                         (map customer_row customers) \<rparr>]
      else []) @
     (if transcript \<noteq> [] then
        [\<lparr> filename = ''magma_care_transcript_'' @ isoNow @ ''.csv'',
           content = csv [''Timestamp'', ''Role'', ''Message'']
                         (map (transcript_row toISOString) transcript) \<rparr>]
      else [])"

section \<open>The session (the App component)\<close>

subsection \<open>Inbound messages and platform objects\<close>

text \<open>
  The parts of a \<open>LiveServerMessage\<close> the handler reads. \<open>audio\<close> is
  \<open>serverContent?.modelTurn?.parts?.[0]?.inlineData?.data\<close>; a transcription is present
  or not, and when present its \<open>text\<close> may still be undefined. The argument object
  of a function call is optional (\<open>args?\<close>), and so is the list of function calls of a
  tool call (\<open>functionCalls?\<close>): \<open>None\<close> is undefined. A key that an argument
  object lacks reads as undefined. The id and the name of a call are only compared and
  copied, so an absent one is a value like any other here.
\<close>

record FunctionCall =
  fc_id :: string
  fc_name :: string
  fc_args :: "(string \<rightharpoonup> string) option"

record FunctionResponse =
  fr_id :: string
  fr_name :: string
  fr_result :: string

record LiveServerMessage =
  audio :: "string option"
  inputTranscription :: "string option option"
  outputTranscription :: "string option option"
  turnComplete :: bool
  toolCall :: "FunctionCall list option option"

text \<open>
  What the handlers read from the platform when they run: \<open>atob\<close>, the output
  context's \<open>currentTime\<close>, \<open>new Date()\<close> and \<open>new Date().toLocaleString()\<close>.
  \<open>eager\<close> holds the roles whose transcript updater React runs during the call of
  the set function, see \<open>setTranscripts\<close>.
\<close>

record env =
  env_atob :: "string \<Rightarrow> string option"
  currentTime :: real
  now :: date
  localeString :: string
  eager :: "role set"

text \<open>
  Platform objects, reduced to what the component does to them. An \<open>AudioContext\<close>
  counts the calls of \<open>close()\<close>; a settled session promise holds a session that counts
  the calls of \<open>close()\<close>, or is rejected; a media stream is the list of its tracks, each
  counting the calls of \<open>stop()\<close>. A started source is logged with its start time, the
  duration of its buffer and the clock value the handler had read.
\<close>

record AudioContext =
  ctx_sampleRate :: nat
  ctx_closeCalls :: nat

record Session =
  session_closeCalls :: nat

datatype 'a promise = Resolved 'a | Rejected

record MediaStreamTrack =
  stopCalls :: nat

record scheduled =
  source :: nat
  startAt :: real
  length_s :: real
  clock :: real

subsection \<open>Component state\<close>

text \<open>
  The five pieces of React state, the refs, and what the component has done to the
  outside: the sources started on the output context (\<open>playback\<close>), the batches passed
  to \<open>session.sendToolResponse\<close> (\<open>sentToolResponses\<close>) and the promises it left
  rejected without a handler (\<open>unhandledRejections\<close>).

  A set function called with a value, or with an updater whose result depends on the
  previous state only (\<open>setCustomerData(prev => [...prev, newCustomer])\<close>, where
  \<open>newCustomer\<close> is a constant of the caller), gives the same state whenever React
  applies it, and is applied at the call. The two updaters of the transcript log read a
  ref and the clock when they run, so for them the queue of the hook is kept:
  \<open>transcriptsQueue\<close>.
\<close>

datatype update = Deferred role | Computed ChatMessage

record app =
  connectionState :: ConnectionState
  customerData :: "CustomerDetails list"
  transcripts :: "ChatMessage list"
  transcriptsQueue :: "update list"
  volumeLevel :: real
  isSpeaking :: bool
  inputAudioContextRef :: "AudioContext option"
  outputAudioContextRef :: "AudioContext option"
  nextStartTimeRef :: real
  sourcesRef :: "nat set"
  streamRef :: "MediaStreamTrack list option"
  sessionPromiseRef :: "Session promise option"
  currentInputTranscription :: string
  currentOutputTranscription :: string
  playback :: "scheduled list"
  sentToolResponses :: "FunctionResponse list list"
  unhandledRejections :: "js_error list"

definition App_initial :: app where
  "App_initial =
     \<lparr> connectionState = DISCONNECTED, customerData = [], transcripts = [],
       transcriptsQueue = [], volumeLevel = 0, isSpeaking = False,
       inputAudioContextRef = None, outputAudioContextRef = None, nextStartTimeRef = 0,
       sourcesRef = {}, streamRef = None, sessionPromiseRef = None,
       currentInputTranscription = [], currentOutputTranscription = [],
       playback = [], sentToolResponses = [], unhandledRejections = [] \<rparr>"

text \<open>
  An asynchronous handler that throws stops there: its promise is rejected and the
  state keeps what was written before the throw.
\<close>

datatype 'a outcome = Done 'a | Threw js_error 'a

fun state_of :: "'a outcome \<Rightarrow> 'a" where
  "state_of (Done s) = s"
| "state_of (Threw e s) = s"

fun and_then :: "'a outcome \<Rightarrow> ('a \<Rightarrow> 'a outcome) \<Rightarrow> 'a outcome" where
  "and_then (Done s) f = f s"
| "and_then (Threw e s) f = Threw e s"

subsection \<open>The transcript log and React\<close>

text \<open>
  \<open>setTranscripts(prev => [...prev, {role, text: <buffer>.current, timestamp: new Date()}])\<close>.
  The message is built inside the updater function, so its text and its timestamp are
  read when React runs the updater: \<open>chat_message\<close> reads the buffer of the role and
  the clock then. React documents that it puts an updater function in a queue and runs it
  during the next render. Its implementation may run an updater during the call instead
  and keep the result: a root made by \<open>createRoot\<close> does so for the first update of a
  component that has none pending, a legacy root outside an event handler does so for
  every update. The environment says for which roles React runs the updater during the
  call (\<open>eager\<close>); the other updaters wait in the queue for \<open>render\<close>.
\<close>

definition chat_message :: "date \<Rightarrow> app \<Rightarrow> role \<Rightarrow> ChatMessage" where
  "chat_message d s r =
     \<lparr> chat_role = r,
       chat_text = (if r = User then currentInputTranscription s else currentOutputTranscription s),
       chat_timestamp = d \<rparr>"

definition setTranscripts :: "env \<Rightarrow> role \<Rightarrow> app \<Rightarrow> app" where
  "setTranscripts e r s =
     (if r \<in> eager e
      then s \<lparr> transcriptsQueue := transcriptsQueue s @ [Computed (chat_message (now e) s r)] \<rparr>
      else s \<lparr> transcriptsQueue := transcriptsQueue s @ [Deferred r] \<rparr>)"

fun apply_update :: "date \<Rightarrow> app \<Rightarrow> ChatMessage list \<Rightarrow> update \<Rightarrow> ChatMessage list" where
  "apply_update d s prev (Computed m) = prev @ [m]"
| "apply_update d s prev (Deferred r) = prev @ [chat_message d s r]"

text \<open>A render of the component: React runs the queue on the current state.\<close>

definition render :: "date \<Rightarrow> app \<Rightarrow> app" where
  "render d s =
     s \<lparr> transcripts := foldl (apply_update d s) (transcripts s) (transcriptsQueue s),
         transcriptsQueue := [] \<rparr>"

subsection \<open>onmessage\<close>

text \<open>
  Handle Audio Output (lines 134 to 162). The source calls
  \<open>decodeAudioData(decode(base64Audio), ctx, 24000, 1)\<close>; an exception of \<open>atob\<close>,
  of the \<open>Int16Array\<close> view or of \<open>createBuffer\<close> ends the handler after the
  speaking flag and the cursor have been written. \<open>decodeAudioData\<close> awaits nothing,
  so the handler resumes from its \<open>await\<close> before the event loop handles another
  event, and the part is one step here.
\<close>

definition handleAudio :: "env \<Rightarrow> LiveServerMessage \<Rightarrow> app \<Rightarrow> app outcome" where
  "handleAudio e message s =
     (case audio message of
        None \<Rightarrow> Done s
      | Some base64Audio \<Rightarrow>
          if base64Audio = [] then Done s
          else
            let s1 = s \<lparr> isSpeaking := True \<rparr> in
            (case outputAudioContextRef s1 of
               None \<Rightarrow> Done s1
             | Some ctx \<Rightarrow>
                 let s2 = s1 \<lparr> nextStartTimeRef := max (nextStartTimeRef s1) (currentTime e) \<rparr> in
                 (case decode (env_atob e) base64Audio of
                    Inl err \<Rightarrow> Threw err s2
                  | Inr bytes \<Rightarrow>
                      (case decodeAudioData bytes 24000 1 of
                         Inl err \<Rightarrow> Threw err s2
                       | Inr audioBuffer \<Rightarrow>
                           let src = length (playback s2) in
                           Done (s2 \<lparr> playback := playback s2 @
                                        [\<lparr> source = src, startAt = nextStartTimeRef s2,
                                           length_s = duration audioBuffer,
                                           clock = currentTime e \<rparr>],
                                      nextStartTimeRef := nextStartTimeRef s2 + duration audioBuffer,
                                      sourcesRef := insert src (sourcesRef s2) \<rparr>)))))"

text \<open>The buffer that the handler makes of a chunk, or the exception.\<close>

definition decode_chunk :: "env \<Rightarrow> string \<Rightarrow> js_error + AudioBuffer" where
  "decode_chunk e base64Audio =
     (case decode (env_atob e) base64Audio of
        Inl err \<Rightarrow> Inl err
      | Inr bytes \<Rightarrow> decodeAudioData bytes 24000 1)"

text \<open>The listener for \<open>ended\<close> that the handler adds to each source.\<close>

definition onended :: "nat \<Rightarrow> app \<Rightarrow> app" where
  "onended src s =
     (let s1 = s \<lparr> sourcesRef := sourcesRef s - {src} \<rparr>
      in if sourcesRef s1 = {} then s1 \<lparr> isSpeaking := False \<rparr> else s1)"

text \<open>Handle Transcriptions (lines 165 to 170).\<close>

definition handleTranscriptions :: "LiveServerMessage \<Rightarrow> app \<Rightarrow> app" where
  "handleTranscriptions message s =
     (let s1 = (case inputTranscription message of
                  None \<Rightarrow> s
                | Some t \<Rightarrow> s \<lparr> currentInputTranscription := currentInputTranscription s @ js_string t \<rparr>)
      in case outputTranscription message of
           None \<Rightarrow> s1
         | Some t \<Rightarrow> s1 \<lparr> currentOutputTranscription := currentOutputTranscription s1 @ js_string t \<rparr>)"

text \<open>Handle Turn Completion (lines 173 to 190).\<close>

definition handleTurnComplete :: "env \<Rightarrow> LiveServerMessage \<Rightarrow> app \<Rightarrow> app" where
  "handleTurnComplete e message s =
     (if turnComplete message then
        let s1 = (if currentInputTranscription s \<noteq> []
                  then (setTranscripts e User s) \<lparr> currentInputTranscription := [] \<rparr>
                  else s)
        in if currentOutputTranscription s1 \<noteq> []
           then (setTranscripts e Model s1) \<lparr> currentOutputTranscription := [] \<rparr>
           else s1
      else s)"

text \<open>
  Handle Tool Calls (lines 193 to 220): the callback of \<open>functionCalls.map\<close>, the map
  itself, which runs the callback on each call in order, and the send.

  For \<open>saveCustomerDetails\<close> the callback reads \<open>args.fullName\<close> from
  \<open>fc.args as any\<close>: without an argument object this is a \<open>TypeError\<close>, thrown before
  anything is written. An exception of the callback ends the map and the handler; the
  records appended for the calls before it stay. \<open>toolCall.functionCalls.map\<close> throws
  likewise when the list is undefined.
\<close>

definition newCustomer :: "env \<Rightarrow> (string \<rightharpoonup> string) \<Rightarrow> CustomerDetails" where
  "newCustomer e args =
     \<lparr> fullName = args ''fullName'',
       phoneNumber = args ''phoneNumber'',
       monthlyIncome = args ''monthlyIncome'',
       age = args ''age'',
       insuranceType = args ''insuranceType'',
       timestamp = localeString e \<rparr>"

definition handleFunctionCall ::
  "env \<Rightarrow> FunctionCall \<Rightarrow> app \<Rightarrow> js_error + FunctionResponse \<times> app" where
  "handleFunctionCall e fc s =
     (if fc_name fc = ''saveCustomerDetails''
      then (case fc_args fc of
              None \<Rightarrow> Inl TypeError
            | Some args \<Rightarrow>
                Inr (\<lparr> fr_id = fc_id fc, fr_name = fc_name fc,
                        fr_result = ''Success: Customer details saved.'' \<rparr>,
                     s \<lparr> customerData := customerData s @ [newCustomer e args] \<rparr>))
      else Inr (\<lparr> fr_id = fc_id fc, fr_name = fc_name fc, fr_result = ''Unknown function'' \<rparr>, s))"

fun mapFunctionCalls ::
  "env \<Rightarrow> FunctionCall list \<Rightarrow> app \<Rightarrow> (FunctionResponse list \<times> app) outcome" where
  "mapFunctionCalls e [] s = Done ([], s)"
| "mapFunctionCalls e (fc # fcs) s =
     (case handleFunctionCall e fc s of
        Inl err \<Rightarrow> Threw err ([], s)
      | Inr (r, s1) \<Rightarrow>
          (case mapFunctionCalls e fcs s1 of
             Done (rs, s2) \<Rightarrow> Done (r # rs, s2)
           | Threw err (rs, s2) \<Rightarrow> Threw err (r # rs, s2)))"

text \<open>
  \<open>sessionPromise.then(session => session.sendToolResponse({functionResponses}))\<close>.
  The promise of the handler is the one that \<open>connectToGemini\<close> stores in
  \<open>sessionPromiseRef\<close> (line 234) before a message can arrive. The batch is sent when
  the promise is resolved; a rejected promise runs no callback, and the promise that
  \<open>then\<close> returns is rejected with no handler. A state with no promise stored has
  no session, and nothing is sent.
\<close>

definition sendToolResponse :: "FunctionResponse list \<Rightarrow> app \<Rightarrow> app" where
  "sendToolResponse responses s =
     (case sessionPromiseRef s of
        None \<Rightarrow> s
      | Some (Resolved session) \<Rightarrow> s \<lparr> sentToolResponses := sentToolResponses s @ [responses] \<rparr>
      | Some Rejected \<Rightarrow> s \<lparr> unhandledRejections := unhandledRejections s @ [PromiseRejected] \<rparr>)"

text \<open>
  What the callback returns for a call, and the records it appends for a batch whose
  calls of \<open>saveCustomerDetails\<close> all carry their arguments.
\<close>

definition response_for :: "FunctionCall \<Rightarrow> FunctionResponse" where
  "response_for fc =
     \<lparr> fr_id = fc_id fc, fr_name = fc_name fc,
       fr_result = (if fc_name fc = ''saveCustomerDetails''
                    then ''Success: Customer details saved.'' else ''Unknown function'') \<rparr>"

definition records_for :: "env \<Rightarrow> FunctionCall list \<Rightarrow> CustomerDetails list" where
  "records_for e fcs =
     concat (map (\<lambda>fc. if fc_name fc = ''saveCustomerDetails''
                        then (case fc_args fc of None \<Rightarrow> [] | Some args \<Rightarrow> [newCustomer e args])
                        else [])
                 fcs)"

definition with_args :: "FunctionCall \<Rightarrow> bool" where
  "with_args fc = (fc_name fc \<noteq> ''saveCustomerDetails'' \<or> fc_args fc \<noteq> None)"

definition handleToolCall :: "env \<Rightarrow> LiveServerMessage \<Rightarrow> app \<Rightarrow> app outcome" where
  "handleToolCall e message s =
     (case toolCall message of
        None \<Rightarrow> Done s
      | Some None \<Rightarrow> Threw TypeError s
      | Some (Some functionCalls) \<Rightarrow>
          (case mapFunctionCalls e functionCalls s of
             Threw err (responses, s1) \<Rightarrow> Threw err s1
           | Done (responses, s1) \<Rightarrow> Done (sendToolResponse responses s1)))"

definition onmessage :: "env \<Rightarrow> LiveServerMessage \<Rightarrow> app \<Rightarrow> app outcome" where
  "onmessage e message s =
     and_then (handleAudio e message s)
       (\<lambda>s1. handleToolCall e message
                (handleTurnComplete e message
                  (handleTranscriptions message s1)))"

subsection \<open>Lifecycle callbacks and disconnect\<close>

definition onopen :: "app \<Rightarrow> app" where
  "onopen s = s \<lparr> connectionState := CONNECTED \<rparr>"

definition onclose :: "app \<Rightarrow> app" where
  "onclose s = s \<lparr> connectionState := DISCONNECTED, isSpeaking := False \<rparr>"

definition onerror :: "app \<Rightarrow> app" where
  "onerror s = s \<lparr> connectionState := ERROR, isSpeaking := False \<rparr>"

text \<open>
  \<open>disconnect\<close> (lines 242 to 259). Awaiting a rejected session promise throws; a
  pending one delays the rest until it settles, where the step here begins.
  \<open>AudioContext.close()\<close> returns a promise, which the Web Audio API rejects with
  \<open>InvalidStateError\<close> when the context is closed already; the source does not handle
  it. Closing a closed session and stopping a stopped track do nothing more.
\<close>

definition close_context :: "AudioContext \<Rightarrow> AudioContext" where
  "close_context ctx = ctx \<lparr> ctx_closeCalls := Suc (ctx_closeCalls ctx) \<rparr>"

definition close_rejections :: "AudioContext option \<Rightarrow> js_error list" where
  "close_rejections ref =
     (case ref of
        None \<Rightarrow> []
      | Some ctx \<Rightarrow> if ctx_closeCalls ctx = 0 then [] else [InvalidStateError])"

definition close_session :: "Session \<Rightarrow> Session" where
  "close_session session = session \<lparr> session_closeCalls := Suc (session_closeCalls session) \<rparr>"

definition stop_track :: "MediaStreamTrack \<Rightarrow> MediaStreamTrack" where
  "stop_track track = track \<lparr> stopCalls := Suc (stopCalls track) \<rparr>"

definition disconnect :: "app \<Rightarrow> app outcome" where
  "disconnect s =
     (case sessionPromiseRef s of
        Some Rejected \<Rightarrow> Threw PromiseRejected s
      | _ \<Rightarrow>
          let s1 = s \<lparr> sessionPromiseRef :=
                         map_option (map_promise close_session) (sessionPromiseRef s) \<rparr>;
              s2 = s1 \<lparr> unhandledRejections := unhandledRejections s1 @ close_rejections (inputAudioContextRef s1),
                        inputAudioContextRef := map_option close_context (inputAudioContextRef s1) \<rparr>;
              s3 = s2 \<lparr> unhandledRejections := unhandledRejections s2 @ close_rejections (outputAudioContextRef s2),
                        outputAudioContextRef := map_option close_context (outputAudioContextRef s2) \<rparr>;
              s4 = s3 \<lparr> streamRef := map_option (map stop_track) (streamRef s3) \<rparr>
          in Done (s4 \<lparr> connectionState := DISCONNECTED, isSpeaking := False, volumeLevel := 0 \<rparr>))"

subsection \<open>Runs of the session\<close>

text \<open>
  The events of a session after it has opened, in the order the event loop handles
  them. A handler that throws leaves the state it had reached.
\<close>

datatype event =
    Message env LiveServerMessage
  | Ended nat
  | Render date
  | Close
  | Error
  | Disconnect

fun step :: "app \<Rightarrow> event \<Rightarrow> app" where
  "step s (Message e message) = state_of (onmessage e message s)"
| "step s (Ended src) = onended src s"
| "step s (Render d) = render d s"
| "step s Close = onclose s"
| "step s Error = onerror s"
| "step s Disconnect = state_of (disconnect s)"

definition run :: "app \<Rightarrow> event list \<Rightarrow> app" where
  "run s events = foldl step s events"

text \<open>The two properties of the playback schedule.\<close>

fun no_overlap :: "scheduled list \<Rightarrow> bool" where
  "no_overlap (a # b # rest) = (startAt a + length_s a \<le> startAt b \<and> no_overlap (b # rest))"
| "no_overlap rest = True"

definition not_in_past :: "scheduled list \<Rightarrow> bool" where
  "not_in_past sched = list_all (\<lambda>a. clock a \<le> startAt a) sched"

text \<open>
  The invariant behind the two properties: the cursor is never before the end of the
  source scheduled last.
\<close>

definition schedule_inv :: "app \<Rightarrow> bool" where
  "schedule_inv s =
     (no_overlap (playback s) \<and> not_in_past (playback s) \<and>
      (playback s = [] \<or>
       startAt (last (playback s)) + length_s (last (playback s)) \<le> nextStartTimeRef s))"

subsection \<open>An example session\<close>

text \<open>
  A session that has opened, with both audio contexts, a stream of one track and a
  resolved session promise; an environment whose \<open>atob\<close> is the identity on binary
  strings; a message without content; three tool calls, the last one without its
  argument object.
\<close>

definition session_example :: app where
  "session_example =
     App_initial \<lparr> connectionState := CONNECTED,
       inputAudioContextRef := Some \<lparr> ctx_sampleRate = 16000, ctx_closeCalls = 0 \<rparr>,
       outputAudioContextRef := Some \<lparr> ctx_sampleRate = 24000, ctx_closeCalls = 0 \<rparr>,
       streamRef := Some [\<lparr> stopCalls = 0 \<rparr>],
       sessionPromiseRef := Some (Resolved \<lparr> session_closeCalls = 0 \<rparr>) \<rparr>"

definition env_example :: "real \<Rightarrow> role set \<Rightarrow> env" where
  "env_example t react_eager =
     \<lparr> env_atob = Some, currentTime = t, now = 1000,
       localeString = ''1/1/2025, 10:00:00 AM'', eager = react_eager \<rparr>"

definition empty_message :: LiveServerMessage where
  "empty_message =
     \<lparr> audio = None, inputTranscription = None, outputTranscription = None,
       turnComplete = False, toolCall = None \<rparr>"

definition save_call :: FunctionCall where
  "save_call =
     \<lparr> fc_id = ''call-1'', fc_name = ''saveCustomerDetails'',
       fc_args = Some [''fullName'' \<mapsto> ''Asha Rao'', ''phoneNumber'' \<mapsto> ''5550100'',
                       ''monthlyIncome'' \<mapsto> ''40000'', ''age'' \<mapsto> ''31'',
                       ''insuranceType'' \<mapsto> ''Health''] \<rparr>"

definition other_call :: FunctionCall where
  "other_call = \<lparr> fc_id = ''call-2'', fc_name = ''getQuote'', fc_args = Some Map.empty \<rparr>"

definition bare_call :: FunctionCall where
  "bare_call = \<lparr> fc_id = ''call-3'', fc_name = ''saveCustomerDetails'', fc_args = None \<rparr>"

section \<open>Encoding\<close>

lemma js_trunc_bounds:
  assumes "- 32768 \<le> v" "v \<le> 32767"
  shows "- 32768 \<le> js_trunc v" "js_trunc v \<le> 32767"
  using assms by (auto simp: js_trunc_def le_floor_iff ceiling_le_iff)

lemma sint_ToInt16:
  assumes "- 32768 \<le> v" "v \<le> 32767"
  shows "sint (ToInt16 v) = js_trunc v"
proof -
  have "- (2 ^ 15) \<le> js_trunc v" "js_trunc v < 2 ^ 15"
    using js_trunc_bounds [OF assms] by simp_all
  then show ?thesis
    unfolding ToInt16_def by (simp add: sint_sbintrunc' signed_take_bit_int_eq_self)
qed

lemma scale_sample_bounds:
  assumes "- 1 \<le> s" "s \<le> 1"
  shows "- 32768 \<le> scale_sample s" "scale_sample s \<le> 32767"
  using assms by (auto simp: scale_sample_def)

lemma clamp_sample_range:
  assumes "clamp_sample x = Some s"
  shows "- 1 \<le> s \<and> s \<le> 1"
  using assms by (cases x) auto


lemma pcm_sample_Num:
  assumes "- 1 \<le> r" "r \<le> 1"
  shows "sint (pcm_sample (Num r)) = js_trunc (scale_sample r)"
proof -
  have "clamp_sample (Num r) = Some r" using assms by simp
  then have "pcm_sample (Num r) = ToInt16 (scale_sample r)" by (simp add: pcm_sample_def)
  then show ?thesis
    using sint_ToInt16 [OF scale_sample_bounds [OF assms]] by simp
qed

lemma pcm_sample_clamped:
  "sint (pcm_sample (Num r)) = js_trunc (scale_sample (max (- 1) (min 1 r)))"
proof -
  have b: "- 1 \<le> max (- 1) (min 1 r)" "max (- 1) (min 1 r) \<le> 1" by simp_all
  have "pcm_sample (Num r) = ToInt16 (scale_sample (max (- 1) (min 1 r)))"
    by (simp add: pcm_sample_def)
  then show ?thesis
    using sint_ToInt16 [OF scale_sample_bounds [OF b]] by simp
qed

lemma pcm_sample_value:
  "sint (pcm_sample (Num r)) =
     (if r \<le> - 1 then - 32768
      else if r < 0 then \<lceil>r * 32768\<rceil>
      else if r < 1 then \<lfloor>r * 32767\<rfloor>
      else 32767)"
proof -
  consider "r \<le> - 1" | "- 1 < r" "r < 0" | "0 \<le> r" "r < 1" | "1 \<le> r" by linarith
  then show ?thesis
  proof cases
    case 1
    then have "max (- 1) (min 1 r) = - 1" by simp
    with 1 show ?thesis
      by (simp add: pcm_sample_clamped js_trunc_def scale_sample_def)
  next
    case 2
    then have "max (- 1) (min 1 r) = r" by simp
    with 2 show ?thesis
      by (simp add: pcm_sample_clamped js_trunc_def scale_sample_def)
  next
    case 3
    then have "max (- 1) (min 1 r) = r" by simp
    with 3 show ?thesis
      by (simp add: pcm_sample_clamped js_trunc_def scale_sample_def)
  next
    case 4
    then have "max (- 1) (min 1 r) = 1" by simp
    with 4 show ?thesis
      by (simp add: pcm_sample_clamped js_trunc_def scale_sample_def)
  qed
qed

text \<open>
  Claim C10. \<open>createBlob\<close> encodes the 16-bit values \<open>pcm_sample x\<close> of its samples,
  and each of them lies between \<open>-32768\<close> and \<open>32767\<close>. A finite sample \<open>r\<close> is
  clamped first: below \<open>-1\<close> it becomes \<open>-1\<close>, above \<open>1\<close> it becomes \<open>1\<close>. The
  value encoded is \<open>-32768\<close> for \<open>r \<le> -1\<close>, the truncation of \<open>r * 32768\<close> for
  negative \<open>r\<close> above \<open>-1\<close>, the truncation of \<open>r * 32767\<close> for \<open>r\<close> from \<open>0\<close>
  to below \<open>1\<close>, and \<open>32767\<close> for \<open>r \<ge> 1\<close>; the conversion never wraps. The
  infinities are encoded as the two ends, and NaN, which no clamp changes, as 0.
\<close>

theorem createBlob_clamps_then_scales:
  "data (createBlob btoa samples) = encode btoa (uint8_view (map pcm_sample samples)) \<and>
   - 32768 \<le> sint (pcm_sample x) \<and> sint (pcm_sample x) \<le> 32767 \<and>
   clamp_sample (Num r) = Some (if r < - 1 then - 1 else if 1 < r then 1 else r) \<and>
   sint (pcm_sample (Num r)) =
     (if r \<le> - 1 then - 32768
      else if r < 0 then \<lceil>r * 32768\<rceil>
      else if r < 1 then \<lfloor>r * 32767\<rfloor>
      else 32767) \<and>
   sint (pcm_sample PosInf) = 32767 \<and> sint (pcm_sample NegInf) = - 32768 \<and>
   pcm_sample NaN = 0 \<and>
   sint (pcm_sample (Num (- 1))) = - 32768 \<and> sint (pcm_sample (Num 1)) = 32767"
proof (intro conjI)
  show "data (createBlob btoa samples) = encode btoa (uint8_view (map pcm_sample samples))"
    by (simp add: createBlob_def)
  have "- (2 ^ (LENGTH(16) - 1)) \<le> sint (pcm_sample x)" by (rule sint_ge)
  then show "- 32768 \<le> sint (pcm_sample x)" by simp
  have "sint (pcm_sample x) < 2 ^ (LENGTH(16) - 1)" by (rule sint_lt)
  then show "sint (pcm_sample x) \<le> 32767" by simp
  show "clamp_sample (Num r) = Some (if r < - 1 then - 1 else if 1 < r then 1 else r)"
    by auto
  show "sint (pcm_sample (Num r)) =
     (if r \<le> - 1 then - 32768
      else if r < 0 then \<lceil>r * 32768\<rceil>
      else if r < 1 then \<lfloor>r * 32767\<rfloor>
      else 32767)"
    by (rule pcm_sample_value)
  have "sint (ToInt16 32767) = 32767" "sint (ToInt16 (- 32768)) = - 32768"
    by (simp_all add: sint_ToInt16 js_trunc_def)
  then show "sint (pcm_sample PosInf) = 32767" "sint (pcm_sample NegInf) = - 32768"
    by (simp_all add: pcm_sample_def scale_sample_def)
  show "pcm_sample NaN = 0" by (simp add: pcm_sample_def)
  show "sint (pcm_sample (Num (- 1))) = - 32768" "sint (pcm_sample (Num 1)) = 32767"
    by (simp_all add: pcm_sample_value)
qed

text \<open>Samples beyond both ends of the range, and two samples inside it.\<close>

theorem createBlob_clamps_then_scales_witness:
  "sint (pcm_sample (Num 3)) = 32767 \<and> sint (pcm_sample (Num (- 3))) = - 32768 \<and>
   sint (pcm_sample (Num (3 / 2))) = 32767 \<and>
   sint (pcm_sample (Num (1 / 2))) = 16383 \<and> sint (pcm_sample (Num (- 1 / 2))) = - 16384"
  using createBlob_clamps_then_scales [of id "[]" NaN 3]
    createBlob_clamps_then_scales [of id "[]" NaN "- 3"]
    createBlob_clamps_then_scales [of id "[]" NaN "3 / 2"]
    createBlob_clamps_then_scales [of id "[]" NaN "1 / 2"]
    createBlob_clamps_then_scales [of id "[]" NaN "- 1 / 2"]
  by simp

section \<open>Round trip\<close>

lemma int16_bytes:
  "push_bit 8 (ucast (ucast (drop_bit 8 w) :: uint8)) OR ucast (ucast w :: uint8) = (w :: int16)"
  by (rule bit_word_eqI) (auto simp: bit_simps)

lemma int16_view_uint8_view: "int16_view (uint8_view ws) = ws"
  by (induction ws) (simp_all add: uint8_view_def int16_bytes)

lemma length_uint8_view: "length (uint8_view ws) = 2 * length ws"
  by (induction ws) (simp_all add: uint8_view_def)

lemma new_Int16Array_uint8_view: "new_Int16Array (uint8_view ws) = Inr ws"
  by (simp add: new_Int16Array_def length_uint8_view int16_view_uint8_view)

lemma byte_char: "of_nat (of_char (char_of (unat b))) = (b :: uint8)"
proof -
  have "unat b < 2 ^ LENGTH(8)" by (rule unsigned_less)
  then have "unat b mod 256 = unat b" by simp
  then show ?thesis by simp
qed

lemma decode_encode:
  assumes "\<And>t. atob (btoa t) = Some t"
  shows "decode atob (encode btoa bytes) = Inr bytes"
  by (simp add: decode_def encode_def assms comp_def byte_char del: of_char_of)

lemma decodeAudioData_mono:
  assumes "ws \<noteq> []"
  shows "decodeAudioData (uint8_view ws) rate 1 =
           (if rate = 0 then Inl NotSupportedError
            else Inr \<lparr> numberOfChannels = 1, frames = length ws, sampleRate = rate,
                       channelData = [map (\<lambda>w. real_of_int (sint w) / 32768) ws] \<rparr>)"
proof -
  have "map (\<lambda>i. real_of_int (sint (ws ! i)) / 32768) [0 ..< length ws] =
        map (\<lambda>w. real_of_int (sint w) / 32768) ws"
    by (rule nth_equalityI) simp_all
  then show ?thesis
    using assms by (simp add: decodeAudioData_def new_Int16Array_uint8_view createBuffer_def)
qed

lemma roundtrip_eq:
  assumes "\<And>t. atob (btoa t) = Some t" "samples \<noteq> []"
  shows "roundtrip btoa atob samples =
           Inr \<lparr> numberOfChannels = 1, frames = length samples, sampleRate = 24000,
                 channelData = [map (\<lambda>x. real_of_int (sint (pcm_sample x)) / 32768) samples] \<rparr>"
proof -
  have "map pcm_sample samples \<noteq> []" using assms(2) by simp
  from decodeAudioData_mono [OF this, of 24000] show ?thesis
    by (simp add: roundtrip_def createBlob_def decode_encode [of atob btoa, OF assms(1)] comp_def)
qed

lemma decoded_error_neg:
  assumes "- 1 \<le> r" "r \<le> 0"
  shows "r \<le> real_of_int (sint (pcm_sample (Num r))) / 32768"
    and "real_of_int (sint (pcm_sample (Num r))) / 32768 - r < 1 / 32768"
proof -
  have r1: "r \<le> 1" using assms by simp
  have eq: "sint (pcm_sample (Num r)) = \<lceil>r * 32768\<rceil>"
    using pcm_sample_Num [OF assms(1) r1] assms(2)
    by (cases "r < 0") (simp_all add: js_trunc_def scale_sample_def)
  have "r * 32768 \<le> real_of_int \<lceil>r * 32768\<rceil>" by (rule le_of_int_ceiling)
  then show "r \<le> real_of_int (sint (pcm_sample (Num r))) / 32768"
    by (simp add: eq)
  have "real_of_int \<lceil>r * 32768\<rceil> < r * 32768 + 1" by linarith
  then show "real_of_int (sint (pcm_sample (Num r))) / 32768 - r < 1 / 32768"
    by (simp add: eq field_simps)
qed

lemma decoded_error_pos:
  assumes "0 \<le> r" "r \<le> 1"
  shows "real_of_int (sint (pcm_sample (Num r))) / 32768 \<le> r"
    and "r - real_of_int (sint (pcm_sample (Num r))) / 32768 < (1 + r) / 32768"
proof -
  have r1: "- 1 \<le> r" using assms by simp
  have eq: "sint (pcm_sample (Num r)) = \<lfloor>r * 32767\<rfloor>"
    using pcm_sample_Num [OF r1 assms(2)] assms(1)
    by (simp add: js_trunc_def scale_sample_def)
  have "real_of_int \<lfloor>r * 32767\<rfloor> \<le> r * 32767" by (rule of_int_floor_le)
  also have "\<dots> \<le> r * 32768" using assms(1) by simp
  finally show "real_of_int (sint (pcm_sample (Num r))) / 32768 \<le> r"
    by (simp add: eq)
  have "r * 32767 < real_of_int \<lfloor>r * 32767\<rfloor> + 1" by linarith
  then show "r - real_of_int (sint (pcm_sample (Num r))) / 32768 < (1 + r) / 32768"
    by (simp add: eq field_simps)
qed

lemma decoded_error:
  assumes "- 1 \<le> r" "r \<le> 1"
  shows "\<bar>real_of_int (sint (pcm_sample (Num r))) / 32768 - r\<bar> < 2 / 32768"
    and "r \<le> 0 \<Longrightarrow> \<bar>real_of_int (sint (pcm_sample (Num r))) / 32768 - r\<bar> < 1 / 32768"
proof -
  show "r \<le> 0 \<Longrightarrow> \<bar>real_of_int (sint (pcm_sample (Num r))) / 32768 - r\<bar> < 1 / 32768"
    using decoded_error_neg [OF assms(1)] by fastforce
  show "\<bar>real_of_int (sint (pcm_sample (Num r))) / 32768 - r\<bar> < 2 / 32768"
  proof (cases "r \<le> 0")
    case True
    then show ?thesis using decoded_error_neg [OF assms(1) True] by simp
  next
    case False
    then have p: "0 \<le> r" by simp
    have "(1 + r) / 32768 \<le> 2 / 32768" using assms(2) by simp
    then show ?thesis using decoded_error_pos [OF p assms(2)] by simp
  qed
qed

text \<open>
  Claim C4, as stated, fails. The sample \<open>65535/65536\<close>, a single-precision value,
  is encoded as \<open>32766\<close> (the truncation of \<open>32767 * 65535/65536\<close>) and decoded as
  \<open>32766/32768\<close>: the error is \<open>1.5/32768\<close>.
\<close>

theorem roundtrip_counterexample:
  "roundtrip id Some [Num (65535 / 65536)] =
     Inr \<lparr> numberOfChannels = 1, frames = 1, sampleRate = 24000, channelData = [[16383 / 16384]] \<rparr>
   \<and> \<not> \<bar>16383 / 16384 - 65535 / 65536\<bar> \<le> (1 / 32768 :: real)"
proof -
  have "\<lfloor>(2147385345 :: real) / 65536\<rfloor> = 32766" by simp
  then have "sint (pcm_sample (Num (65535 / 65536))) = 32766"
    by (simp add: pcm_sample_Num js_trunc_def scale_sample_def)
  then have "real_of_int (sint (pcm_sample (Num (65535 / 65536)))) = real_of_int 32766"
    by (simp only:)
  then show ?thesis
    by (simp add: roundtrip_eq)
qed

text \<open>
  Claim C4, amended. Samples are scaled by \<open>32768\<close> or \<open>32767\<close> on the way out and
  divided by \<open>32768\<close> on the way in. For every non-empty sequence of samples in
  \<open>[-1, 1]\<close>, with \<open>atob\<close> inverting \<open>btoa\<close>, decoding what \<open>createBlob\<close> encoded
  gives one channel of as many values, each less than two quantization steps
  (\<open>2/32768\<close>) from its sample, and less than one step for a sample that is not
  positive. (The empty sequence does not decode: \<open>createBuffer\<close> refuses a buffer of no
  frame.)
\<close>

theorem roundtrip_error:
  assumes "\<And>t. atob (btoa t) = Some t"
    and "rs \<noteq> []"
    and "\<forall>r \<in> set rs. - 1 \<le> r \<and> r \<le> 1"
  shows "\<exists>buffer decoded.
           roundtrip btoa atob (map Num rs) = Inr buffer \<and>
           channelData buffer = [decoded] \<and>
           length decoded = length rs \<and>
           (\<forall>i < length rs.
              \<bar>decoded ! i - rs ! i\<bar> < 2 / 32768 \<and>
              (rs ! i \<le> 0 \<longrightarrow> \<bar>decoded ! i - rs ! i\<bar> < 1 / 32768))"
proof -
  define decoded where "decoded = map (\<lambda>x. real_of_int (sint (pcm_sample x)) / 32768) (map Num rs)"
  have rt: "roundtrip btoa atob (map Num rs) =
      Inr \<lparr> numberOfChannels = 1, frames = length (map Num rs), sampleRate = 24000,
            channelData = [decoded] \<rparr>"
    unfolding decoded_def using assms(2) by (intro roundtrip_eq assms(1)) simp
  have len: "length decoded = length rs" by (simp add: decoded_def)
  have err: "\<bar>decoded ! i - rs ! i\<bar> < 2 / 32768 \<and>
             (rs ! i \<le> 0 \<longrightarrow> \<bar>decoded ! i - rs ! i\<bar> < 1 / 32768)" if "i < length rs" for i
  proof -
    from that assms(3) have b: "- 1 \<le> rs ! i" "rs ! i \<le> 1" by (simp_all add: nth_mem)
    have d: "decoded ! i = real_of_int (sint (pcm_sample (Num (rs ! i)))) / 32768"
      using that by (simp add: decoded_def del: of_int_sint)
    show ?thesis
      unfolding d using decoded_error [OF b] by blast
  qed
  from rt len err show ?thesis by auto
qed

text \<open>Three samples, with the identity for \<open>btoa\<close> and \<open>atob\<close>.\<close>

theorem roundtrip_error_witness:
  "(\<forall>t :: string. Some (id t) = Some t) \<and> [1 / 2, - 1, 1 :: real] \<noteq> [] \<and>
   set [1 / 2, - 1, 1 :: real] \<subseteq> {- 1 .. 1} \<and>
   (\<exists>buffer decoded.
      roundtrip id Some (map Num [1 / 2, - 1, 1 :: real]) = Inr buffer \<and>
      channelData buffer = [decoded] \<and>
      length decoded = length [1 / 2, - 1, 1 :: real] \<and>
      (\<forall>i < length [1 / 2, - 1, 1 :: real].
         \<bar>decoded ! i - [1 / 2, - 1, 1 :: real] ! i\<bar> < 2 / 32768 \<and>
         ([1 / 2, - 1, 1 :: real] ! i \<le> 0 \<longrightarrow>
            \<bar>decoded ! i - [1 / 2, - 1, 1 :: real] ! i\<bar> < 1 / 32768)))"
proof -
  have h1: "\<And>t :: string. Some (id t) = Some t" by simp
  have h2: "[1 / 2, - 1, 1 :: real] \<noteq> []" by simp
  have h3: "\<forall>r \<in> set [1 / 2, - 1, 1 :: real]. - 1 \<le> r \<and> r \<le> 1" by simp
  have h4: "set [1 / 2, - 1, 1 :: real] \<subseteq> {- 1 .. 1}" by simp
  from roundtrip_error [of Some id, OF h1 h2 h3] h2 h4 show ?thesis by simp
qed

section \<open>Export\<close>

text \<open>
  The three fields of a transcript row are quoted and the message is escaped; the
  fields of a customer row are quoted and written as they are.
\<close>

lemma transcript_row_message:
  "transcript_row toISOString t ! 2 = [dq] @ escape_quotes (chat_text t) @ [dq]"
  by (simp add: transcript_row_def quoted_def)

lemma customer_row_name:
  "customer_row c ! 0 = [dq] @ js_string (fullName c) @ [dq]"
  by (simp add: customer_row_def quoted_def)

lemma escape_quotes_example:
  "escape_quotes (''A'' @ [dq] @ ''B'') = ''A'' @ [dq, dq] @ ''B''"
  by (simp add: escape_quotes_def dq_def)

text \<open>
  Claim C9 at one customer record and one chat message, both with the value \<open>A"B\<close>.
  The transcript artifact holds the message as \<open>"A""B"\<close>, the quote doubled; the
  customer artifact holds the name as \<open>"A"B"\<close>, the quote not doubled: only the
  transcript path calls \<open>replace\<close>.
\<close>

theorem exportToCSV_customer_quote_not_doubled:
  "map content
     (exportToCSV (\<lambda>d. ''2025-01-01T10:00:00.000Z'') ''2025-01-01T10:05:00.000Z''
        [\<lparr> fullName = Some (''A'' @ [dq] @ ''B''), phoneNumber = Some ''1'',
            monthlyIncome = Some ''2'', age = Some ''3'', insuranceType = Some ''Pet'',
            timestamp = ''now'' \<rparr>]
        [\<lparr> chat_role = User, chat_text = ''A'' @ [dq] @ ''B'', chat_timestamp = 0 \<rparr>]) =
     [''Full Name,Phone,Income,Age,Insurance Type,Timestamp'' @ [CHR 0x0A] @
        [dq] @ ''A'' @ [dq] @ ''B'' @ [dq] @ '','' @ quoted ''1'' @ '','' @ quoted ''2'' @ '','' @
        quoted ''3'' @ '','' @ quoted ''Pet'' @ '','' @ quoted ''now'',
      ''Timestamp,Role,Message'' @ [CHR 0x0A] @
        quoted ''2025-01-01T10:00:00.000Z'' @ '','' @ quoted ''user'' @ '','' @
        [dq] @ ''A'' @ [dq, dq] @ ''B'' @ [dq]]"
  by (simp add: exportToCSV_def csv_def customer_row_def transcript_row_def quoted_def
        escape_quotes_def dq_def)

section \<open>Playback\<close>

lemma no_overlap_snoc:
  "no_overlap (xs @ [a]) =
     (no_overlap xs \<and> (xs = [] \<or> startAt (last xs) + length_s (last xs) \<le> startAt a))"
  by (induction xs rule: no_overlap.induct) auto

lemma not_in_past_snoc:
  "not_in_past (xs @ [a]) = (not_in_past xs \<and> clock a \<le> startAt a)"
  by (simp add: not_in_past_def)

lemma decodeAudioData_duration:
  assumes "decodeAudioData bytes rate n = Inr b"
  shows "0 < duration b"
  using assms
  by (auto simp: decodeAudioData_def createBuffer_def duration_def
           split: sum.splits if_splits)

lemma handleAudio_playback:
  "(playback (state_of (handleAudio e m s)) = playback s \<and>
    nextStartTimeRef s \<le> nextStartTimeRef (state_of (handleAudio e m s))) \<or>
   (\<exists>d > 0. handleAudio e m s = Done (state_of (handleAudio e m s)) \<and>
      playback (state_of (handleAudio e m s)) =
        playback s @ [\<lparr> source = length (playback s),
                        startAt = max (nextStartTimeRef s) (currentTime e),
                        length_s = d, clock = currentTime e \<rparr>] \<and>
      nextStartTimeRef (state_of (handleAudio e m s)) =
        max (nextStartTimeRef s) (currentTime e) + d)"
  by (auto simp: handleAudio_def Let_def dest: decodeAudioData_duration
           split: option.splits sum.splits)

text \<open>What the later parts of the handler, and the other callbacks, leave alone.\<close>

lemma setTranscripts_fields [simp]:
  "playback (setTranscripts e r s) = playback s"
  "nextStartTimeRef (setTranscripts e r s) = nextStartTimeRef s"
  "customerData (setTranscripts e r s) = customerData s"
  "sentToolResponses (setTranscripts e r s) = sentToolResponses s"
  "currentInputTranscription (setTranscripts e r s) = currentInputTranscription s"
  "currentOutputTranscription (setTranscripts e r s) = currentOutputTranscription s"
  "transcripts (setTranscripts e r s) = transcripts s"
  "isSpeaking (setTranscripts e r s) = isSpeaking s"
  by (simp_all add: setTranscripts_def)

lemma handleTranscriptions_fields [simp]:
  "playback (handleTranscriptions m s) = playback s"
  "nextStartTimeRef (handleTranscriptions m s) = nextStartTimeRef s"
  "customerData (handleTranscriptions m s) = customerData s"
  "sentToolResponses (handleTranscriptions m s) = sentToolResponses s"
  "isSpeaking (handleTranscriptions m s) = isSpeaking s"
  by (simp_all add: handleTranscriptions_def Let_def split: option.splits)

lemma handleTurnComplete_fields [simp]:
  "playback (handleTurnComplete e m s) = playback s"
  "nextStartTimeRef (handleTurnComplete e m s) = nextStartTimeRef s"
  "customerData (handleTurnComplete e m s) = customerData s"
  "sentToolResponses (handleTurnComplete e m s) = sentToolResponses s"
  "isSpeaking (handleTurnComplete e m s) = isSpeaking s"
  by (simp_all add: handleTurnComplete_def Let_def)

lemma mapFunctionCalls_fields:
  "playback (snd (state_of (mapFunctionCalls e fcs s))) = playback s \<and>
   nextStartTimeRef (snd (state_of (mapFunctionCalls e fcs s))) = nextStartTimeRef s \<and>
   sentToolResponses (snd (state_of (mapFunctionCalls e fcs s))) = sentToolResponses s \<and>
   isSpeaking (snd (state_of (mapFunctionCalls e fcs s))) = isSpeaking s \<and>
   sessionPromiseRef (snd (state_of (mapFunctionCalls e fcs s))) = sessionPromiseRef s"
proof (induction fcs arbitrary: s)
  case Nil
  then show ?case by simp
next
  case (Cons fc fcs)
  show ?case
  proof (cases "handleFunctionCall e fc s")
    case (Inl err)
    then show ?thesis by simp
  next
    case (Inr p)
    obtain r s1 where p: "p = (r, s1)" by (cases p)
    from Inr p have s1: "playback s1 = playback s" "nextStartTimeRef s1 = nextStartTimeRef s"
      "sentToolResponses s1 = sentToolResponses s" "isSpeaking s1 = isSpeaking s"
      "sessionPromiseRef s1 = sessionPromiseRef s"
      by (auto simp: handleFunctionCall_def split: if_splits option.splits)
    from Cons.IH [of s1] Inr p s1 show ?thesis
      by (cases "mapFunctionCalls e fcs s1") auto
  qed
qed

lemma sendToolResponse_fields [simp]:
  "playback (sendToolResponse rs s) = playback s"
  "nextStartTimeRef (sendToolResponse rs s) = nextStartTimeRef s"
  "isSpeaking (sendToolResponse rs s) = isSpeaking s"
  "customerData (sendToolResponse rs s) = customerData s"
  by (simp_all add: sendToolResponse_def split: option.splits promise.splits)

lemma handleToolCall_fields [simp]:
  "playback (state_of (handleToolCall e m s)) = playback s"
  "nextStartTimeRef (state_of (handleToolCall e m s)) = nextStartTimeRef s"
  "isSpeaking (state_of (handleToolCall e m s)) = isSpeaking s"
proof -
  have "playback (state_of (handleToolCall e m s)) = playback s \<and>
        nextStartTimeRef (state_of (handleToolCall e m s)) = nextStartTimeRef s \<and>
        isSpeaking (state_of (handleToolCall e m s)) = isSpeaking s"
  proof (cases "toolCall m")
    case None
    then show ?thesis by (simp add: handleToolCall_def)
  next
    case (Some calls)
    show ?thesis
    proof (cases calls)
      case None
      with Some show ?thesis by (simp add: handleToolCall_def)
    next
      case (Some fcs)
      with \<open>toolCall m = Some calls\<close> mapFunctionCalls_fields [of e fcs s] show ?thesis
        by (cases "mapFunctionCalls e fcs s") (auto simp: handleToolCall_def)
    qed
  qed
  then show "playback (state_of (handleToolCall e m s)) = playback s"
    and "nextStartTimeRef (state_of (handleToolCall e m s)) = nextStartTimeRef s"
    and "isSpeaking (state_of (handleToolCall e m s)) = isSpeaking s"
    by simp_all
qed

lemma onmessage_state:
  "state_of (onmessage e m s) =
     (case handleAudio e m s of
        Done s1 \<Rightarrow> state_of (handleToolCall e m (handleTurnComplete e m (handleTranscriptions m s1)))
      | Threw err s1 \<Rightarrow> s1)"
  by (simp add: onmessage_def split: outcome.splits)

lemma onmessage_playback:
  "playback (state_of (onmessage e m s)) = playback (state_of (handleAudio e m s))"
  "nextStartTimeRef (state_of (onmessage e m s)) = nextStartTimeRef (state_of (handleAudio e m s))"
  by (simp_all add: onmessage_state split: outcome.splits)

lemma disconnect_playback:
  "playback (state_of (disconnect s)) = playback s"
  "nextStartTimeRef (state_of (disconnect s)) = nextStartTimeRef s"
  by (simp_all add: disconnect_def Let_def split: option.splits promise.splits)

lemma schedule_inv_message:
  assumes "schedule_inv s"
  shows "schedule_inv (state_of (onmessage e m s))"
proof -
  let ?t = "state_of (handleAudio e m s)"
  from handleAudio_playback [of e m s]
  have "schedule_inv ?t"
  proof
    assume "playback ?t = playback s \<and> nextStartTimeRef s \<le> nextStartTimeRef ?t"
    with assms show ?thesis
      by (auto simp: schedule_inv_def)
  next
    assume "\<exists>d > 0. handleAudio e m s = Done ?t \<and>
      playback ?t = playback s @ [\<lparr> source = length (playback s),
                        startAt = max (nextStartTimeRef s) (currentTime e),
                        length_s = d, clock = currentTime e \<rparr>] \<and>
      nextStartTimeRef ?t = max (nextStartTimeRef s) (currentTime e) + d"
    with assms show ?thesis
      by (auto simp: schedule_inv_def no_overlap_snoc not_in_past_def)
  qed
  then show ?thesis
    by (simp add: schedule_inv_def onmessage_playback)
qed

lemma schedule_inv_step:
  assumes "schedule_inv s"
  shows "schedule_inv (step s ev)"
proof (cases ev)
  case (Message e m)
  then show ?thesis using schedule_inv_message [OF assms] by simp
next
  case (Ended src)
  then show ?thesis using assms by (simp add: schedule_inv_def onended_def Let_def)
next
  case (Render d)
  then show ?thesis using assms by (simp add: schedule_inv_def render_def)
next
  case Close
  then show ?thesis using assms by (simp add: schedule_inv_def onclose_def)
next
  case Error
  then show ?thesis using assms by (simp add: schedule_inv_def onerror_def)
next
  case Disconnect
  then show ?thesis using assms by (simp add: schedule_inv_def disconnect_playback)
qed

lemma schedule_inv_run:
  "schedule_inv s \<Longrightarrow> schedule_inv (run s events)"
  unfolding run_def
  by (induction events arbitrary: s) (simp_all add: schedule_inv_step)

lemma onmessage_schedule:
  "playback (state_of (onmessage e m s)) = playback s \<or>
   (\<exists>d > 0.
      playback (state_of (onmessage e m s)) =
        playback s @ [\<lparr> source = length (playback s),
                        startAt = max (nextStartTimeRef s) (currentTime e),
                        length_s = d, clock = currentTime e \<rparr>] \<and>
      nextStartTimeRef (state_of (onmessage e m s)) =
        max (nextStartTimeRef s) (currentTime e) + d)"
  using handleAudio_playback [of e m s] unfolding onmessage_playback by blast

lemmas example_defs =
  run_def onmessage_def handleAudio_def session_example_def App_initial_def
  env_example_def empty_message_def decode_def decodeAudioData_def new_Int16Array_def
  createBuffer_def duration_def handleTranscriptions_def handleTurnComplete_def
  handleToolCall_def setTranscripts_def render_def chat_message_def handleFunctionCall_def
  newCustomer_def onclose_def onerror_def onended_def disconnect_def close_context_def
  close_rejections_def close_session_def stop_track_def save_call_def other_call_def
  bare_call_def sendToolResponse_def decode_chunk_def response_for_def records_for_def
  with_args_def Let_def

lemma example_run_playback:
  "playback (run session_example
       [Message (env_example 5 {User}) (empty_message \<lparr> audio := Some ''ab'' \<rparr>),
        Message (env_example 7 {User}) (empty_message \<lparr> audio := Some ''abcd'' \<rparr>),
        Message (env_example 7 {User}) (empty_message \<lparr> audio := Some ''efgh'' \<rparr>)]) =
     [\<lparr> source = 0, startAt = 5, length_s = 1 / 24000, clock = 5 \<rparr>,
      \<lparr> source = 1, startAt = 7, length_s = 2 / 24000, clock = 7 \<rparr>,
      \<lparr> source = 2, startAt = 7 + 2 / 24000, length_s = 2 / 24000, clock = 7 \<rparr>]"
  by (simp add: example_defs)

text \<open>
  Claim C1. A message either leaves the schedule as it is or adds one source to it:
  the source starts exactly at \<open>max nextStart now\<close>, where \<open>now\<close> is the clock value
  the handler read, its buffer has a positive duration, and the cursor becomes that
  start plus that duration. Hence in every run of a session whose schedule starts empty,
  whatever the events and whatever the clock values, each source starts no earlier than
  the previous one ends (\<open>no_overlap\<close>) and no earlier than the clock value at its
  scheduling (\<open>not_in_past\<close>).
\<close>

theorem playback_schedule:
  "(playback (state_of (onmessage e m s)) = playback s \<or>
    (\<exists>d > 0.
       playback (state_of (onmessage e m s)) =
         playback s @ [\<lparr> source = length (playback s),
                         startAt = max (nextStartTimeRef s) (currentTime e),
                         length_s = d, clock = currentTime e \<rparr>] \<and>
       nextStartTimeRef (state_of (onmessage e m s)) =
         max (nextStartTimeRef s) (currentTime e) + d)) \<and>
   (playback s0 = [] \<longrightarrow>
      no_overlap (playback (run s0 events)) \<and> not_in_past (playback (run s0 events)))"
proof
  show "playback (state_of (onmessage e m s)) = playback s \<or>
    (\<exists>d > 0.
       playback (state_of (onmessage e m s)) =
         playback s @ [\<lparr> source = length (playback s),
                         startAt = max (nextStartTimeRef s) (currentTime e),
                         length_s = d, clock = currentTime e \<rparr>] \<and>
       nextStartTimeRef (state_of (onmessage e m s)) =
         max (nextStartTimeRef s) (currentTime e) + d)"
    by (rule onmessage_schedule)
  show "playback s0 = [] \<longrightarrow>
      no_overlap (playback (run s0 events)) \<and> not_in_past (playback (run s0 events))"
  proof
    assume "playback s0 = []"
    then have "schedule_inv s0" by (simp add: schedule_inv_def not_in_past_def)
    then have "schedule_inv (run s0 events)" by (rule schedule_inv_run)
    then show "no_overlap (playback (run s0 events)) \<and> not_in_past (playback (run s0 events))"
      by (simp add: schedule_inv_def)
  qed
qed

text \<open>
  Three chunks: the second arrives after the first has played out and starts at the
  clock value; the third arrives at once and starts where the second ends.
\<close>

theorem playback_schedule_witness:
  "playback session_example = [] \<and>
   playback (run session_example
       [Message (env_example 5 {User}) (empty_message \<lparr> audio := Some ''ab'' \<rparr>),
        Message (env_example 7 {User}) (empty_message \<lparr> audio := Some ''abcd'' \<rparr>),
        Message (env_example 7 {User}) (empty_message \<lparr> audio := Some ''efgh'' \<rparr>)]) =
     [\<lparr> source = 0, startAt = 5, length_s = 1 / 24000, clock = 5 \<rparr>,
      \<lparr> source = 1, startAt = 7, length_s = 2 / 24000, clock = 7 \<rparr>,
      \<lparr> source = 2, startAt = 7 + 2 / 24000, length_s = 2 / 24000, clock = 7 \<rparr>] \<and>
   no_overlap (playback (run session_example
       [Message (env_example 5 {User}) (empty_message \<lparr> audio := Some ''ab'' \<rparr>),
        Message (env_example 7 {User}) (empty_message \<lparr> audio := Some ''abcd'' \<rparr>),
        Message (env_example 7 {User}) (empty_message \<lparr> audio := Some ''efgh'' \<rparr>)])) \<and>
   not_in_past (playback (run session_example
       [Message (env_example 5 {User}) (empty_message \<lparr> audio := Some ''ab'' \<rparr>),
        Message (env_example 7 {User}) (empty_message \<lparr> audio := Some ''abcd'' \<rparr>),
        Message (env_example 7 {User}) (empty_message \<lparr> audio := Some ''efgh'' \<rparr>)]))"
proof -
  have h: "playback session_example = []"
    by (simp add: session_example_def App_initial_def)
  from playback_schedule [of "env_example 5 {User}" empty_message session_example session_example
      "[Message (env_example 5 {User}) (empty_message \<lparr> audio := Some ''ab'' \<rparr>),
        Message (env_example 7 {User}) (empty_message \<lparr> audio := Some ''abcd'' \<rparr>),
        Message (env_example 7 {User}) (empty_message \<lparr> audio := Some ''efgh'' \<rparr>)]"]
    h example_run_playback
  show ?thesis by blast
qed

section \<open>Transcript\<close>

text \<open>
  The buffers do what the claim says: a delta is appended to the buffer of its role,
  and a turn completion leaves both buffers empty and queues one update for each role
  whose buffer was not empty.
\<close>

lemma handleTranscriptions_buffers:
  "currentInputTranscription (handleTranscriptions m s) =
     currentInputTranscription s @ (case inputTranscription m of None \<Rightarrow> [] | Some t \<Rightarrow> js_string t)"
  "currentOutputTranscription (handleTranscriptions m s) =
     currentOutputTranscription s @ (case outputTranscription m of None \<Rightarrow> [] | Some t \<Rightarrow> js_string t)"
  by (simp_all add: handleTranscriptions_def Let_def split: option.splits)

lemma handleTurnComplete_clears:
  assumes "turnComplete m"
  shows "currentInputTranscription (handleTurnComplete e m s) = []"
    and "currentOutputTranscription (handleTurnComplete e m s) = []"
  using assms by (simp_all add: handleTurnComplete_def Let_def)

lemma handleTurnComplete_queue_length:
  assumes "turnComplete m"
  shows "length (transcriptsQueue (handleTurnComplete e m s)) =
           length (transcriptsQueue s)
             + (if currentInputTranscription s \<noteq> [] then 1 else 0)
             + (if currentOutputTranscription s \<noteq> [] then 1 else 0)"
  using assms by (simp add: handleTurnComplete_def setTranscripts_def Let_def)

text \<open>
  The text of the message is read when the updater runs. When React runs every updater
  during the call, the messages hold the buffers; an updater that runs at the next render
  finds what the buffer is then, and the handler has emptied the buffer right after the
  call.
\<close>

lemma commit_at_the_call:
  assumes "turnComplete m" "eager e = {User, Model}" "transcriptsQueue s = []"
  shows "transcripts (render d (handleTurnComplete e m s)) =
           transcripts s
             @ (if currentInputTranscription s \<noteq> []
                then [\<lparr> chat_role = User, chat_text = currentInputTranscription s,
                        chat_timestamp = now e \<rparr>]
                else [])
             @ (if currentOutputTranscription s \<noteq> []
                then [\<lparr> chat_role = Model, chat_text = currentOutputTranscription s,
                        chat_timestamp = now e \<rparr>]
                else [])"
  using assms
  by (simp add: handleTurnComplete_def setTranscripts_def render_def chat_message_def Let_def)

lemma commit_at_render:
  assumes "turnComplete m" "eager e = {}" "transcriptsQueue s = []"
  shows "transcripts (render d (handleTurnComplete e m s)) =
           transcripts s
             @ (if currentInputTranscription s \<noteq> []
                then [\<lparr> chat_role = User, chat_text = [], chat_timestamp = d \<rparr>]
                else [])
             @ (if currentOutputTranscription s \<noteq> []
                then [\<lparr> chat_role = Model, chat_text = [], chat_timestamp = d \<rparr>]
                else [])"
  using assms
  by (simp add: handleTurnComplete_def setTranscripts_def render_def chat_message_def Let_def)

lemma second_commit_at_render:
  assumes "turnComplete m" "eager e = {User}" "transcriptsQueue s = []"
    and "currentInputTranscription s \<noteq> []" "currentOutputTranscription s \<noteq> []"
  shows "transcripts (render d (handleTurnComplete e m s)) =
           transcripts s @
             [\<lparr> chat_role = User, chat_text = currentInputTranscription s, chat_timestamp = now e \<rparr>,
              \<lparr> chat_role = Model, chat_text = [], chat_timestamp = d \<rparr>]"
  using assms
  by (simp add: handleTurnComplete_def setTranscripts_def render_def chat_message_def Let_def)

text \<open>
  Claim C2 at a turn with the deltas \<open>Hello\<close> and \<open> there\<close> for the user and
  \<open>Hi!\<close> for the model, followed by the turn completion and a render. The claim
  asks for the messages \<open>Hello there\<close> and \<open>Hi!\<close>. When React runs the first updater
  during the call and the second at the render, the log holds \<open>Hello there\<close> for the
  user and the empty text for the model; when it runs both at the render, as it documents,
  the log holds the empty text for both.
\<close>

theorem turnComplete_commits_emptied_buffer:
  "transcripts (run session_example
      [Message (env_example 5 {User}) (empty_message \<lparr> inputTranscription := Some (Some ''Hello'') \<rparr>),
       Message (env_example 5 {User}) (empty_message \<lparr> inputTranscription := Some (Some '' there'') \<rparr>),
       Message (env_example 5 {User}) (empty_message \<lparr> outputTranscription := Some (Some ''Hi!'') \<rparr>),
       Message (env_example 5 {User}) (empty_message \<lparr> turnComplete := True \<rparr>),
       Render 2000]) =
     [\<lparr> chat_role = User, chat_text = ''Hello there'', chat_timestamp = 1000 \<rparr>,
      \<lparr> chat_role = Model, chat_text = [], chat_timestamp = 2000 \<rparr>] \<and>
   transcripts (run session_example
      [Message (env_example 5 {}) (empty_message \<lparr> inputTranscription := Some (Some ''Hello'') \<rparr>),
       Message (env_example 5 {}) (empty_message \<lparr> inputTranscription := Some (Some '' there'') \<rparr>),
       Message (env_example 5 {}) (empty_message \<lparr> outputTranscription := Some (Some ''Hi!'') \<rparr>),
       Message (env_example 5 {}) (empty_message \<lparr> turnComplete := True \<rparr>),
       Render 2000]) =
     [\<lparr> chat_role = User, chat_text = [], chat_timestamp = 2000 \<rparr>,
      \<lparr> chat_role = Model, chat_text = [], chat_timestamp = 2000 \<rparr>]"
  by (simp add: example_defs)

section \<open>Tool calls\<close>

lemma handleAudio_Done_fields:
  assumes "handleAudio e m s = Done s1"
  shows "customerData s1 = customerData s" "sentToolResponses s1 = sentToolResponses s"
    "sessionPromiseRef s1 = sessionPromiseRef s"
  using assms
  by (auto simp: handleAudio_def Let_def split: option.splits sum.splits if_splits)

lemma sessionPromiseRef_kept [simp]:
  "sessionPromiseRef (handleTranscriptions m s) = sessionPromiseRef s"
  "sessionPromiseRef (handleTurnComplete e m s) = sessionPromiseRef s"
  by (simp_all add: handleTranscriptions_def handleTurnComplete_def setTranscripts_def Let_def
        split: option.splits)

text \<open>
  A batch whose calls of \<open>saveCustomerDetails\<close> all carry their arguments: the map
  completes, with one response for each call, in order, and one record for each call of
  \<open>saveCustomerDetails\<close>.
\<close>

lemma mapFunctionCalls_Done:
  assumes "list_all with_args fcs"
  shows "mapFunctionCalls e fcs s =
           Done (map response_for fcs, s \<lparr> customerData := customerData s @ records_for e fcs \<rparr>)"
  using assms
proof (induction fcs arbitrary: s)
  case Nil
  then show ?case by (simp add: records_for_def)
next
  case (Cons fc fcs)
  then have tl: "list_all with_args fcs" and hd: "with_args fc" by simp_all
  show ?case
  proof (cases "fc_name fc = ''saveCustomerDetails''")
    case True
    with hd obtain args where "fc_args fc = Some args" by (auto simp: with_args_def)
    with True Cons.IH [OF tl] show ?thesis
      by (simp add: handleFunctionCall_def response_for_def records_for_def)
  next
    case False
    with Cons.IH [OF tl] show ?thesis
      by (simp add: handleFunctionCall_def response_for_def records_for_def)
  qed
qed

text \<open>
  A batch with a call of \<open>saveCustomerDetails\<close> that has no argument object: the map
  throws there. The records of the calls before it are appended already.
\<close>

lemma mapFunctionCalls_Threw:
  assumes "list_all with_args before" "\<not> with_args fc"
  shows "mapFunctionCalls e (before @ fc # after) s =
           Threw TypeError
             (map response_for before, s \<lparr> customerData := customerData s @ records_for e before \<rparr>)"
  using assms
proof (induction before arbitrary: s)
  case Nil
  then show ?case by (simp add: handleFunctionCall_def with_args_def records_for_def)
next
  case (Cons b before)
  then have tl: "list_all with_args before" and hd: "with_args b" by simp_all
  show ?case
  proof (cases "fc_name b = ''saveCustomerDetails''")
    case True
    with hd obtain args where "fc_args b = Some args" by (auto simp: with_args_def)
    with True Cons.IH [OF tl Cons.prems(2)] show ?thesis
      by (simp add: handleFunctionCall_def response_for_def records_for_def)
  next
    case False
    with Cons.IH [OF tl Cons.prems(2)] show ?thesis
      by (simp add: handleFunctionCall_def response_for_def records_for_def)
  qed
qed

text \<open>
  In a message whose audio part is absent or decodes, on a session whose promise is
  resolved: a batch with all arguments present is answered by one message of responses;
  a batch with a call of \<open>saveCustomerDetails\<close> without arguments is not answered.
\<close>

lemma onmessage_toolCall:
  assumes "handleAudio e m s = Done s1" "toolCall m = Some (Some fcs)"
    and "list_all with_args fcs" "sessionPromiseRef s = Some (Resolved session)"
  shows "\<exists>s'. onmessage e m s = Done s' \<and>
           sentToolResponses s' = sentToolResponses s @ [map response_for fcs] \<and>
           customerData s' = customerData s @ records_for e fcs"
  using assms handleAudio_Done_fields [OF assms(1)]
  by (simp add: onmessage_def handleToolCall_def mapFunctionCalls_Done sendToolResponse_def)

lemma onmessage_toolCall_Threw:
  assumes "handleAudio e m s = Done s1" "toolCall m = Some (Some (before @ fc # after))"
    and "list_all with_args before" "\<not> with_args fc"
  shows "\<exists>s'. onmessage e m s = Threw TypeError s' \<and>
           sentToolResponses s' = sentToolResponses s \<and>
           customerData s' = customerData s @ records_for e before"
  using assms handleAudio_Done_fields [OF assms(1)]
  by (simp add: onmessage_def handleToolCall_def mapFunctionCalls_Threw)

text \<open>The batch of the call with five arguments and the unknown call is answered in full.\<close>

lemma example_batch_answered:
  "onmessage (env_example 5 {User}) (empty_message \<lparr> toolCall := Some (Some [save_call, other_call]) \<rparr>)
     session_example =
   Done (session_example
     \<lparr> customerData :=
         [\<lparr> fullName = Some ''Asha Rao'', phoneNumber = Some ''5550100'',
            monthlyIncome = Some ''40000'', age = Some ''31'', insuranceType = Some ''Health'',
            timestamp = ''1/1/2025, 10:00:00 AM'' \<rparr>],
       sentToolResponses :=
         [[\<lparr> fr_id = ''call-1'', fr_name = ''saveCustomerDetails'',
             fr_result = ''Success: Customer details saved.'' \<rparr>,
           \<lparr> fr_id = ''call-2'', fr_name = ''getQuote'', fr_result = ''Unknown function'' \<rparr>]] \<rparr>)"
  by (simp add: example_defs)

text \<open>
  Claim C3 at a batch of one invocation, a call of \<open>saveCustomerDetails\<close> that has no
  argument object (\<open>args\<close> is optional in a function call). The claim asks for one
  result with the id of the call. The callback throws at \<open>args.fullName\<close>, the
  handler ends there, and nothing is sent on the session.
\<close>

theorem batch_with_bare_call_gets_no_result:
  "onmessage (env_example 5 {User}) (empty_message \<lparr> toolCall := Some (Some [bare_call]) \<rparr>)
     session_example = Threw TypeError session_example \<and>
   sentToolResponses session_example = []"
  by (simp add: example_defs)

text \<open>
  Claim C5 at batches of two invocations: the call with the five arguments, and a call of
  \<open>saveCustomerDetails\<close> that has no argument object. The claim asks for one record
  and one success result for the first call. When it comes first, its record is appended
  and then the map throws: no result is sent. When it comes second, the map throws before
  it: no record is appended and no result is sent.
\<close>

theorem save_call_beside_bare_call_gets_no_result:
  "onmessage (env_example 5 {User}) (empty_message \<lparr> toolCall := Some (Some [save_call, bare_call]) \<rparr>)
     session_example =
   Threw TypeError (session_example
     \<lparr> customerData :=
         [\<lparr> fullName = Some ''Asha Rao'', phoneNumber = Some ''5550100'',
            monthlyIncome = Some ''40000'', age = Some ''31'', insuranceType = Some ''Health'',
            timestamp = ''1/1/2025, 10:00:00 AM'' \<rparr>] \<rparr>) \<and>
   onmessage (env_example 5 {User}) (empty_message \<lparr> toolCall := Some (Some [bare_call, save_call]) \<rparr>)
     session_example = Threw TypeError session_example \<and>
   customerData session_example = [] \<and> sentToolResponses session_example = []"
  by (simp add: example_defs)

text \<open>
  Claim C6 at a batch of two invocations: a call of the unknown function \<open>getQuote\<close>,
  and a call of \<open>saveCustomerDetails\<close> that has no argument object. The claim asks for
  the result \<open>Unknown function\<close> with the id of the first call. The callback builds it,
  then the map throws at the second call, and nothing is sent.
\<close>

theorem unknown_call_beside_bare_call_gets_no_decline:
  "onmessage (env_example 5 {User}) (empty_message \<lparr> toolCall := Some (Some [other_call, bare_call]) \<rparr>)
     session_example = Threw TypeError session_example \<and>
   sentToolResponses session_example = []"
  by (simp add: example_defs)

section \<open>Disconnect\<close>

lemma disconnect_Done:
  assumes "sessionPromiseRef s \<noteq> Some Rejected"
  shows "disconnect s =
     Done (s \<lparr> sessionPromiseRef := map_option (map_promise close_session) (sessionPromiseRef s),
              unhandledRejections := unhandledRejections s
                 @ close_rejections (inputAudioContextRef s)
                 @ close_rejections (outputAudioContextRef s),
              inputAudioContextRef := map_option close_context (inputAudioContextRef s),
              outputAudioContextRef := map_option close_context (outputAudioContextRef s),
              streamRef := map_option (map stop_track) (streamRef s),
              connectionState := DISCONNECTED, isSpeaking := False, volumeLevel := 0 \<rparr>)"
  using assms
  by (simp add: disconnect_def Let_def split: option.splits promise.splits)

lemma disconnect_Threw:
  "sessionPromiseRef s = Some Rejected \<Longrightarrow> disconnect s = Threw PromiseRejected s"
  by (simp add: disconnect_def)

lemma close_rejections_closed:
  "close_rejections (map_option close_context ref) =
     (case ref of None \<Rightarrow> [] | Some ctx \<Rightarrow> [InvalidStateError])"
  by (simp add: close_rejections_def close_context_def split: option.splits)

text \<open>
  Claim C7, as stated, fails. From the example session, two calls of \<open>disconnect\<close>
  call \<open>close()\<close> twice on the input context, and the second call leaves two rejected
  promises, one for each audio context.
\<close>

theorem disconnect_twice_counterexample:
  "connectionState session_example = CONNECTED \<and>
   connectionState (run session_example [Disconnect, Disconnect]) = DISCONNECTED \<and>
   map_option ctx_closeCalls (inputAudioContextRef (run session_example [Disconnect, Disconnect])) = Some 2 \<and>
   unhandledRejections (run session_example [Disconnect]) = [] \<and>
   unhandledRejections (run session_example [Disconnect, Disconnect]) =
     [InvalidStateError, InvalidStateError] \<and>
   \<not> (map_option ctx_closeCalls (inputAudioContextRef (run session_example [Disconnect, Disconnect])) = Some 1 \<and>
      unhandledRejections (run session_example [Disconnect, Disconnect]) = [])"
  by (simp add: example_defs)

text \<open>
  Claim C7, amended. With the session promise unset or resolved, two calls of
  \<open>disconnect\<close> in succession both complete and both leave the state
  \<open>DISCONNECTED\<close>. No reference is cleared, so the second call releases again
  whatever the first released: across the two calls the session, each audio context and
  each track of the stream that the component holds receives two calls of \<open>close()\<close>
  or \<open>stop()\<close>, and the second \<open>close()\<close> of each audio context held is rejected
  with \<open>InvalidStateError\<close>.
\<close>

theorem disconnect_twice:
  assumes "sessionPromiseRef s \<noteq> Some Rejected"
  shows "\<exists>s1 s2.
           disconnect s = Done s1 \<and> disconnect s1 = Done s2 \<and>
           connectionState s1 = DISCONNECTED \<and> connectionState s2 = DISCONNECTED \<and>
           sessionPromiseRef s2 =
             map_option (map_promise (\<lambda>session. session \<lparr> session_closeCalls := session_closeCalls session + 2 \<rparr>))
               (sessionPromiseRef s) \<and>
           inputAudioContextRef s2 =
             map_option (\<lambda>ctx. ctx \<lparr> ctx_closeCalls := ctx_closeCalls ctx + 2 \<rparr>) (inputAudioContextRef s) \<and>
           outputAudioContextRef s2 =
             map_option (\<lambda>ctx. ctx \<lparr> ctx_closeCalls := ctx_closeCalls ctx + 2 \<rparr>) (outputAudioContextRef s) \<and>
           streamRef s2 =
             map_option (map (\<lambda>track. track \<lparr> stopCalls := stopCalls track + 2 \<rparr>)) (streamRef s) \<and>
           unhandledRejections s2 =
             unhandledRejections s1
               @ (case inputAudioContextRef s of None \<Rightarrow> [] | Some ctx \<Rightarrow> [InvalidStateError])
               @ (case outputAudioContextRef s of None \<Rightarrow> [] | Some ctx \<Rightarrow> [InvalidStateError])"
proof -
  define s1 where "s1 = state_of (disconnect s)"
  define s2 where "s2 = state_of (disconnect s1)"
  have d1: "disconnect s = Done s1"
    unfolding s1_def by (simp add: disconnect_Done [OF assms])
  have p1: "sessionPromiseRef s1 \<noteq> Some Rejected"
    using assms unfolding s1_def
    by (cases "sessionPromiseRef s"; simp add: disconnect_Done [OF assms])
       (case_tac a; simp)
  have d2: "disconnect s1 = Done s2"
    unfolding s2_def by (simp add: disconnect_Done [OF p1])
  have f1: "connectionState s1 = DISCONNECTED"
    "sessionPromiseRef s1 = map_option (map_promise close_session) (sessionPromiseRef s)"
    "inputAudioContextRef s1 = map_option close_context (inputAudioContextRef s)"
    "outputAudioContextRef s1 = map_option close_context (outputAudioContextRef s)"
    "streamRef s1 = map_option (map stop_track) (streamRef s)"
    unfolding s1_def by (simp_all add: disconnect_Done [OF assms])
  have f2: "connectionState s2 = DISCONNECTED"
    "sessionPromiseRef s2 = map_option (map_promise close_session) (sessionPromiseRef s1)"
    "inputAudioContextRef s2 = map_option close_context (inputAudioContextRef s1)"
    "outputAudioContextRef s2 = map_option close_context (outputAudioContextRef s1)"
    "streamRef s2 = map_option (map stop_track) (streamRef s1)"
    "unhandledRejections s2 = unhandledRejections s1
        @ close_rejections (inputAudioContextRef s1) @ close_rejections (outputAudioContextRef s1)"
    unfolding s2_def by (simp_all add: disconnect_Done [OF p1])
  have g1: "sessionPromiseRef s2 =
      map_option (map_promise (\<lambda>session. session \<lparr> session_closeCalls := session_closeCalls session + 2 \<rparr>))
        (sessionPromiseRef s)"
    by (simp add: f1 f2 option.map_comp promise.map_comp comp_def close_session_def)
  have g2: "inputAudioContextRef s2 =
      map_option (\<lambda>ctx. ctx \<lparr> ctx_closeCalls := ctx_closeCalls ctx + 2 \<rparr>) (inputAudioContextRef s)"
    by (simp add: f1 f2 option.map_comp comp_def close_context_def)
  have g3: "outputAudioContextRef s2 =
      map_option (\<lambda>ctx. ctx \<lparr> ctx_closeCalls := ctx_closeCalls ctx + 2 \<rparr>) (outputAudioContextRef s)"
    by (simp add: f1 f2 option.map_comp comp_def close_context_def)
  have g4: "streamRef s2 =
      map_option (map (\<lambda>track. track \<lparr> stopCalls := stopCalls track + 2 \<rparr>)) (streamRef s)"
    by (simp add: f1 f2 option.map_comp comp_def stop_track_def)
  have g5: "unhandledRejections s2 =
      unhandledRejections s1
        @ (case inputAudioContextRef s of None \<Rightarrow> [] | Some ctx \<Rightarrow> [InvalidStateError])
        @ (case outputAudioContextRef s of None \<Rightarrow> [] | Some ctx \<Rightarrow> [InvalidStateError])"
    by (simp add: f1 f2 close_rejections_closed)
  from d1 d2 f1(1) f2(1) g1 g2 g3 g4 g5 show ?thesis by blast
qed

theorem disconnect_twice_witness:
  "sessionPromiseRef session_example \<noteq> Some Rejected \<and>
   (\<exists>s1 s2.
      disconnect session_example = Done s1 \<and> disconnect s1 = Done s2 \<and>
      connectionState s1 = DISCONNECTED \<and> connectionState s2 = DISCONNECTED \<and>
      sessionPromiseRef s2 = Some (Resolved \<lparr> session_closeCalls = 2 \<rparr>) \<and>
      inputAudioContextRef s2 = Some \<lparr> ctx_sampleRate = 16000, ctx_closeCalls = 2 \<rparr> \<and>
      outputAudioContextRef s2 = Some \<lparr> ctx_sampleRate = 24000, ctx_closeCalls = 2 \<rparr> \<and>
      streamRef s2 = Some [\<lparr> stopCalls = 2 \<rparr>] \<and>
      unhandledRejections s2 = unhandledRejections s1 @ [InvalidStateError, InvalidStateError])"
proof -
  have h: "sessionPromiseRef session_example \<noteq> Some Rejected"
    by (simp add: session_example_def App_initial_def)
  from disconnect_twice [OF h] h show ?thesis
    by (simp add: session_example_def App_initial_def numeral_2_eq_2)
qed

section \<open>Chunks after the session has closed\<close>

lemma handleAudio_connectionState:
  "handleAudio e m (s \<lparr> connectionState := c \<rparr>) =
     map_outcome (\<lambda>t. t \<lparr> connectionState := c \<rparr>) (handleAudio e m s)"
  by (simp add: handleAudio_def Let_def split: option.splits sum.splits)

lemma disconnect_keeps_reference:
  "outputAudioContextRef (state_of (disconnect s)) = None \<longleftrightarrow> outputAudioContextRef s = None"
proof (cases "sessionPromiseRef s = Some Rejected")
  case True
  then show ?thesis by (simp add: disconnect_def)
next
  case False
  then show ?thesis by (simp add: disconnect_Done)
qed

lemma handleAudio_chunk:
  assumes "audio m = Some base64Audio" "base64Audio \<noteq> []"
  shows "handleAudio e m s =
     (case outputAudioContextRef s of
        None \<Rightarrow> Done (s \<lparr> isSpeaking := True \<rparr>)
      | Some ctx \<Rightarrow>
          (case decode_chunk e base64Audio of
             Inl err \<Rightarrow>
               Threw err (s \<lparr> isSpeaking := True,
                               nextStartTimeRef := max (nextStartTimeRef s) (currentTime e) \<rparr>)
           | Inr audioBuffer \<Rightarrow>
               Done (s \<lparr> isSpeaking := True,
                          playback := playback s @
                            [\<lparr> source = length (playback s),
                               startAt = max (nextStartTimeRef s) (currentTime e),
                               length_s = duration audioBuffer, clock = currentTime e \<rparr>],
                          nextStartTimeRef :=
                            max (nextStartTimeRef s) (currentTime e) + duration audioBuffer,
                          sourcesRef := insert (length (playback s)) (sourcesRef s) \<rparr>)))"
  using assms
  by (simp add: handleAudio_def decode_chunk_def Let_def split: option.splits sum.splits)

lemma decode_chunk_duration:
  "decode_chunk e base64Audio = Inr audioBuffer \<Longrightarrow> 0 < duration audioBuffer"
  by (auto simp: decode_chunk_def split: sum.splits dest: decodeAudioData_duration)

text \<open>
  Claim C8, as stated, fails. The example session receives \<open>onclose\<close>, or is
  disconnected, and then a chunk of one frame at clock value 5: the speaking flag is
  set, a source is started at 5 and the cursor moves from 0 to the end of that source.
\<close>

theorem chunk_after_close_counterexample:
  "connectionState (run session_example [Close]) = DISCONNECTED \<and>
   \<not> isSpeaking (run session_example [Close]) \<and>
   nextStartTimeRef (run session_example [Close]) = 0 \<and>
   isSpeaking (run session_example
     [Close, Message (env_example 5 {User}) (empty_message \<lparr> audio := Some ''ab'' \<rparr>)]) \<and>
   playback (run session_example
     [Close, Message (env_example 5 {User}) (empty_message \<lparr> audio := Some ''ab'' \<rparr>)]) =
     [\<lparr> source = 0, startAt = 5, length_s = 1 / 24000, clock = 5 \<rparr>] \<and>
   nextStartTimeRef (run session_example
     [Close, Message (env_example 5 {User}) (empty_message \<lparr> audio := Some ''ab'' \<rparr>)]) =
     5 + 1 / 24000 \<and>
   connectionState (run session_example [Disconnect]) = DISCONNECTED \<and>
   isSpeaking (run session_example
     [Disconnect, Message (env_example 5 {User}) (empty_message \<lparr> audio := Some ''ab'' \<rparr>)]) \<and>
   playback (run session_example
     [Disconnect, Message (env_example 5 {User}) (empty_message \<lparr> audio := Some ''ab'' \<rparr>)]) =
     [\<lparr> source = 0, startAt = 5, length_s = 1 / 24000, clock = 5 \<rparr>]"
  by (simp add: example_defs)

text \<open>
  Claim C8, amended. A chunk that arrives after the session has closed is not dropped.
  The handler of audio chunks does not read the connection state: on a state that
  differs in the connection state only it does the same, and neither \<open>onclose\<close> nor
  \<open>disconnect\<close> clears the reference to the output context. For every message with a
  non-empty chunk, in every state, the speaking flag is set. Where an output context
  was created, the cursor moves to \<open>max cursor clock\<close>; a chunk that decodes is
  scheduled to start there and the cursor advances by its duration; for a chunk that
  does not decode the handler throws, nothing is scheduled and the cursor stays at that
  maximum. Where no output context was ever created, nothing is scheduled and the cursor
  is unchanged.
\<close>

theorem chunk_handled_in_every_connection_state:
  assumes "audio m = Some base64Audio" and "base64Audio \<noteq> []"
  shows "handleAudio e m (s \<lparr> connectionState := c \<rparr>) =
           map_outcome (\<lambda>t. t \<lparr> connectionState := c \<rparr>) (handleAudio e m s) \<and>
         outputAudioContextRef (onclose s) = outputAudioContextRef s \<and>
         (outputAudioContextRef (state_of (disconnect s)) = None \<longleftrightarrow> outputAudioContextRef s = None) \<and>
         isSpeaking (state_of (onmessage e m s)) \<and>
         (case outputAudioContextRef s of
            None \<Rightarrow>
              playback (state_of (onmessage e m s)) = playback s \<and>
              nextStartTimeRef (state_of (onmessage e m s)) = nextStartTimeRef s
          | Some ctx \<Rightarrow>
              (case decode_chunk e base64Audio of
                 Inr audioBuffer \<Rightarrow>
                   0 < duration audioBuffer \<and>
                   playback (state_of (onmessage e m s)) =
                     playback s @
                       [\<lparr> source = length (playback s),
                          startAt = max (nextStartTimeRef s) (currentTime e),
                          length_s = duration audioBuffer, clock = currentTime e \<rparr>] \<and>
                   nextStartTimeRef (state_of (onmessage e m s)) =
                     max (nextStartTimeRef s) (currentTime e) + duration audioBuffer
               | Inl err \<Rightarrow>
                   onmessage e m s =
                     Threw err (s \<lparr> isSpeaking := True,
                                     nextStartTimeRef := max (nextStartTimeRef s) (currentTime e) \<rparr>)))"
proof (intro conjI)
  show "handleAudio e m (s \<lparr> connectionState := c \<rparr>) =
           map_outcome (\<lambda>t. t \<lparr> connectionState := c \<rparr>) (handleAudio e m s)"
    by (rule handleAudio_connectionState)
  show "outputAudioContextRef (onclose s) = outputAudioContextRef s"
    by (simp add: onclose_def)
  show "outputAudioContextRef (state_of (disconnect s)) = None \<longleftrightarrow> outputAudioContextRef s = None"
    by (rule disconnect_keeps_reference)
  have sp: "isSpeaking (state_of (handleAudio e m s))"
    by (simp add: handleAudio_chunk [OF assms] split: option.splits sum.splits)
  then show "isSpeaking (state_of (onmessage e m s))"
    by (cases "handleAudio e m s") (simp_all add: onmessage_state)
  show "case outputAudioContextRef s of
            None \<Rightarrow>
              playback (state_of (onmessage e m s)) = playback s \<and>
              nextStartTimeRef (state_of (onmessage e m s)) = nextStartTimeRef s
          | Some ctx \<Rightarrow>
              (case decode_chunk e base64Audio of
                 Inr audioBuffer \<Rightarrow>
                   0 < duration audioBuffer \<and>
                   playback (state_of (onmessage e m s)) =
                     playback s @
                       [\<lparr> source = length (playback s),
                          startAt = max (nextStartTimeRef s) (currentTime e),
                          length_s = duration audioBuffer, clock = currentTime e \<rparr>] \<and>
                   nextStartTimeRef (state_of (onmessage e m s)) =
                     max (nextStartTimeRef s) (currentTime e) + duration audioBuffer
               | Inl err \<Rightarrow>
                   onmessage e m s =
                     Threw err (s \<lparr> isSpeaking := True,
                                     nextStartTimeRef := max (nextStartTimeRef s) (currentTime e) \<rparr>))"
    by (auto simp: onmessage_playback handleAudio_chunk [OF assms] onmessage_def
             dest: decode_chunk_duration split: option.splits sum.splits)
qed

text \<open>
  The example session after \<open>onclose\<close> receives a chunk of one frame, and after
  \<open>disconnect\<close> a chunk of three bytes, which does not decode.
\<close>

theorem chunk_handled_in_every_connection_state_witness:
  "audio (empty_message \<lparr> audio := Some ''ab'' \<rparr>) = Some ''ab'' \<and> ''ab'' \<noteq> [] \<and>
   connectionState (run session_example [Close]) = DISCONNECTED \<and>
   \<not> isSpeaking (run session_example [Close]) \<and>
   isSpeaking (state_of (onmessage (env_example 5 {User}) (empty_message \<lparr> audio := Some ''ab'' \<rparr>)
     (run session_example [Close]))) \<and>
   playback (state_of (onmessage (env_example 5 {User}) (empty_message \<lparr> audio := Some ''ab'' \<rparr>)
     (run session_example [Close]))) =
     [\<lparr> source = 0, startAt = 5, length_s = 1 / 24000, clock = 5 \<rparr>] \<and>
   nextStartTimeRef (state_of (onmessage (env_example 5 {User}) (empty_message \<lparr> audio := Some ''ab'' \<rparr>)
     (run session_example [Close]))) = 5 + 1 / 24000 \<and>
   connectionState (run session_example [Disconnect]) = DISCONNECTED \<and>
   onmessage (env_example 5 {User}) (empty_message \<lparr> audio := Some ''abc'' \<rparr>)
     (run session_example [Disconnect]) =
     Threw RangeError ((run session_example [Disconnect]) \<lparr> isSpeaking := True, nextStartTimeRef := 5 \<rparr>)"
proof -
  let ?e = "env_example 5 {User}"
  have h1: "audio (empty_message \<lparr> audio := Some ''ab'' \<rparr>) = Some ''ab''" by simp
  have h2: "''ab'' \<noteq> []" by simp
  have g1: "audio (empty_message \<lparr> audio := Some ''abc'' \<rparr>) = Some ''abc''" by simp
  have g2: "''abc'' \<noteq> []" by simp
  have d1: "decode_chunk ?e ''ab'' =
      Inr \<lparr> numberOfChannels = 1, frames = 1, sampleRate = 24000,
            channelData = [[real_of_int (sint (25185 :: int16)) / 32768]] \<rparr>"
    by (simp add: example_defs)
  have d2: "decode_chunk ?e ''abc'' = Inl RangeError"
    by (simp add: example_defs)
  have c: "run session_example [Close] =
      session_example \<lparr> connectionState := DISCONNECTED, isSpeaking := False \<rparr>"
    by (simp add: run_def onclose_def)
  have st: "outputAudioContextRef session_example = Some \<lparr> ctx_sampleRate = 24000, ctx_closeCalls = 0 \<rparr>"
    "playback session_example = []" "nextStartTimeRef session_example = 0"
    by (simp_all add: session_example_def App_initial_def)
  have dc: "connectionState (run session_example [Disconnect]) = DISCONNECTED"
    "outputAudioContextRef (run session_example [Disconnect]) = Some \<lparr> ctx_sampleRate = 24000, ctx_closeCalls = 1 \<rparr>"
    "nextStartTimeRef (run session_example [Disconnect]) = 0"
    by (simp_all add: example_defs)
  from chunk_handled_in_every_connection_state
      [OF h1 h2, where e = ?e and s = "run session_example [Close]" and c = CONNECTED]
    chunk_handled_in_every_connection_state
      [OF g1 g2, where e = ?e and s = "run session_example [Disconnect]" and c = CONNECTED]
    h1 h2 d1 d2 st dc
  show ?thesis
    by (simp add: c duration_def env_example_def)
qed

end
